theory Spec2Isabelle
  imports Main
begin

section \<open>Values of the host language\<close>

text \<open>
  A TypeScript \<^verbatim>\<open>string\<close> slot that may hold \<^verbatim>\<open>undefined\<close>: \<open>None\<close> is
  \<^verbatim>\<open>undefined\<close>. The operator \<^verbatim>\<open>a || b\<close> yields \<open>a\<close> when \<open>a\<close> is truthy and
  \<open>b\<close> otherwise; \<^verbatim>\<open>undefined\<close> and the empty string are the falsy strings, a
  function object is always truthy.
\<close>

type_synonym jsstring = "string option"

definition truthy :: "jsstring \<Rightarrow> bool" where
  "truthy m = (case m of None \<Rightarrow> False | Some t \<Rightarrow> t \<noteq> [])"

definition js_or :: "jsstring \<Rightarrow> jsstring \<Rightarrow> jsstring" where
  "js_or a b = (if truthy a then a else b)"

definition fn_or :: "'f option \<Rightarrow> 'f option \<Rightarrow> 'f option" where
  "fn_or a b = (case a of Some f \<Rightarrow> Some f | None \<Rightarrow> b)"

text \<open>
  The only exception the class itself can raise: a method call on a private channel
  field that is still \<^verbatim>\<open>undefined\<close> (the completion callbacks write
  \<^verbatim>\<open>this._loaded$.next(...)\<close> without the getter), or a call of an absent handler.
\<close>

datatype error = TypeError

section \<open>The channel: rxjs BehaviorSubject\<close>

text \<open>
  An observer is caller code that a channel calls, synchronously, with every value
  \<^verbatim>\<open>next\<close> is given. What matters to the cell is whether that code reads
  \<^verbatim>\<open>cell.value$\<close> while it runs, because the getter of \<^verbatim>\<open>value$\<close> may start a
  load: a \<open>Watcher\<close> never does, a \<open>Reader p\<close> does when handed a value \<open>v\<close>
  with \<open>p v\<close>. Observers that call methods of the cell are outside the model.
\<close>

datatype 'v observer = Watcher | Reader "'v \<Rightarrow> bool"

fun reads :: "'v observer \<Rightarrow> 'v \<Rightarrow> bool" where
  "reads Watcher v = False"
| "reads (Reader p) v = p v"

text \<open>
  The part of \<^verbatim>\<open>BehaviorSubject\<close> the class uses: the constructor, \<^verbatim>\<open>next\<close>,
  \<^verbatim>\<open>complete\<close> and \<^verbatim>\<open>getValue\<close>, and \<^verbatim>\<open>subscribe\<close> for its observers.
  \<^verbatim>\<open>next(v)\<close> stores \<open>v\<close> as the current value and, unless the subject is stopped,
  hands it to the observers in the order they subscribed; \<^verbatim>\<open>complete()\<close> stops the
  subject and drops its observers. \<open>emitted\<close> lists the values handed out by
  \<^verbatim>\<open>next\<close>, oldest first. The class never calls \<^verbatim>\<open>unsubscribe\<close> or \<^verbatim>\<open>error\<close> on a
  subject, so a subject is never closed or failed and these calls never throw.
\<close>

record 'v BehaviorSubject =
  bs_value :: 'v
  isStopped :: bool
  emitted :: "'v list"
  observers :: "'v observer list"

definition new_bs :: "'v \<Rightarrow> 'v BehaviorSubject" where
  "new_bs v = \<lparr>bs_value = v, isStopped = False, emitted = [], observers = []\<rparr>"

text \<open>What \<^verbatim>\<open>next(v)\<close> does to the subject itself; the calls of the observers follow
  in \<open>tell\<close>.\<close>

definition bs_next :: "'v \<Rightarrow> 'v BehaviorSubject \<Rightarrow> 'v BehaviorSubject" where
  "bs_next v b =
     (if isStopped b then b\<lparr>bs_value := v\<rparr>
      else b\<lparr>bs_value := v, emitted := emitted b @ [v]\<rparr>)"

definition bs_complete :: "'v BehaviorSubject \<Rightarrow> 'v BehaviorSubject" where
  "bs_complete b = b\<lparr>isStopped := True, observers := []\<rparr>"

definition bs_subscribe :: "'v observer \<Rightarrow> 'v BehaviorSubject \<Rightarrow> 'v BehaviorSubject" where
  "bs_subscribe ob b = b\<lparr>observers := observers b @ [ob]\<rparr>"

text \<open>
  The observers of a channel are handed \<open>v\<close> one after the other; \<open>read\<close> is what a
  read of \<^verbatim>\<open>cell.value$\<close> does to the state \<open>'s\<close> of the cell. The list is the one
  the channel had when \<^verbatim>\<open>next\<close> was called.
\<close>

fun tell :: "('s \<Rightarrow> 's) \<Rightarrow> 'v observer list \<Rightarrow> 'v \<Rightarrow> 's \<Rightarrow> 's" where
  "tell read [] v s = s"
| "tell read (ob # obs) v s = tell read obs v (if reads ob v then read s else s)"

text \<open>The private helpers \<^verbatim>\<open>next(bs, value)\<close> and \<^verbatim>\<open>complete(bs)\<close>: nothing
  happens when the channel was never materialised. \<open>field\<close> selects the private
  field, \<open>emit\<close> is the call of \<^verbatim>\<open>next\<close> on it.\<close>

definition next_if :: "('s \<Rightarrow> 'b option) \<Rightarrow> ('s \<Rightarrow> 's) \<Rightarrow> 's \<Rightarrow> 's" where
  "next_if field emit s = (case field s of None \<Rightarrow> s | Some b \<Rightarrow> emit s)"

definition complete_opt :: "'v BehaviorSubject option \<Rightarrow> 'v BehaviorSubject option" where
  "complete_opt bs = (case bs of None \<Rightarrow> None | Some b \<Rightarrow> Some (bs_complete b))"

text \<open>A direct \<^verbatim>\<open>this._x$.next(value)\<close> on the private field.\<close>

definition direct_next :: "('s \<Rightarrow> 'b option) \<Rightarrow> ('s \<Rightarrow> 's) \<Rightarrow> 's \<Rightarrow> error + 's" where
  "direct_next field emit s = (case field s of None \<Rightarrow> Inl TypeError | Some b \<Rightarrow> Inr (emit s))"

section \<open>The cell and its surroundings\<close>

text \<open>
  Caller-supplied operations are opaque to the class: a source
  (\<^verbatim>\<open>() => Observable<T>\<close>), a sink (\<^verbatim>\<open>(val: T) => Observable<any>\<close>) and a saved
  callback are known by a name. A subscription is known by a handle.
\<close>

type_synonym handle = nat
type_synonym source = nat
type_synonym sink = nat
type_synonym callback = nat

text \<open>What is attached to a live subscription: the two callbacks of a load, or the two
  callbacks of \<^verbatim>\<open>save\<close> together with the \<^verbatim>\<open>saved\<close> argument they captured.\<close>

datatype subscriber = LoadSub | SaveSub "callback option"

text \<open>Modelled from the spec: the configuration type \<^verbatim>\<open>RxCacheItemConfig\<close>
  (\<^verbatim>\<open>rxcache-item-config.ts\<close>), with the options the spec lists; every option but the
  id may be absent.\<close>

record ('a, 'x) RxCacheItemConfig =
  c_id :: string
  initialValue :: "'a option"
  c_genericError :: jsstring
  c_construct :: "source option"
  c_persist :: "sink option"
  c_saved :: "callback option"
  c_errorHandler :: "('x \<Rightarrow> jsstring) option"
  c_load :: bool

text \<open>Modelled from the spec: the process-wide \<^verbatim>\<open>globalConfig\<close>
  (\<^verbatim>\<open>global-config.ts\<close>): an optional error handler and a generic error text.\<close>

record 'x GlobalConfig =
  g_errorHandler :: "('x \<Rightarrow> jsstring) option"
  g_genericError :: string

text \<open>
  The fields of \<^verbatim>\<open>RxCacheItem<T>\<close>: \<open>'a\<close> is \<open>T\<close> and \<open>'x\<close> is \<^verbatim>\<open>any\<close>. The held
  value is \<open>None\<close> when it is \<^verbatim>\<open>undefined\<close>, which is what the class tests with
  \<^verbatim>\<open>typeof\<close>; an optional field is \<open>None\<close> when it is falsy (\<^verbatim>\<open>undefined\<close>, or
  \<^verbatim>\<open>null\<close> for the subscription after \<^verbatim>\<open>unsubscribe()\<close>). After the fields comes
  what the class reaches outside itself: the next free subscription handle, the
  subscriptions that are still attached, the calls made to sources and sinks (most
  recent first) and the saved callbacks invoked (oldest first).
\<close>

record ('a, 'x) RxCacheItem =
  item_id :: string
  genericError :: jsstring
  construct :: "source option"
  persist :: "sink option"
  saved :: "callback option"
  errorHandler :: "('x \<Rightarrow> jsstring) option"
  subscription :: "handle option"
  instance_bs :: "'a option BehaviorSubject"
  loaded_bs :: "bool BehaviorSubject option"
  loading_bs :: "bool BehaviorSubject option"
  saving_bs :: "bool BehaviorSubject option"
  saved_bs :: "bool BehaviorSubject option"
  hasError_bs :: "bool BehaviorSubject option"
  error_bs :: "jsstring BehaviorSubject option"
  next_handle :: handle
  subscribers :: "handle \<rightharpoonup> subscriber"
  loads :: "(handle \<times> source) list"
  saves :: "(handle \<times> sink \<times> 'a option) list"
  notified :: "(callback \<times> 'x) list"

text \<open>What a read of \<^verbatim>\<open>cell.value$\<close> by an observer does to the cell.\<close>

type_synonym ('a, 'x) reading = "('a, 'x) RxCacheItem \<Rightarrow> ('a, 'x) RxCacheItem"

subsection \<open>The lazy getters\<close>

text \<open>
  Each getter \<^verbatim>\<open>get x$()\<close> creates the channel on first use and returns it:
  \<open>x_chan\<close> is the subject returned, \<open>x_get\<close> the cell afterwards.
\<close>

definition loaded_chan :: "('a, 'x) RxCacheItem \<Rightarrow> bool BehaviorSubject" where
  "loaded_chan s =
     (case loaded_bs s of
        None \<Rightarrow> new_bs (bs_value (instance_bs s) \<noteq> None)
      | Some b \<Rightarrow> b)"

definition loaded_get :: "('a, 'x) RxCacheItem \<Rightarrow> ('a, 'x) RxCacheItem" where
  "loaded_get s = s\<lparr>loaded_bs := Some (loaded_chan s)\<rparr>"

definition loading_chan :: "('a, 'x) RxCacheItem \<Rightarrow> bool BehaviorSubject" where
  "loading_chan s = (case loading_bs s of None \<Rightarrow> new_bs False | Some b \<Rightarrow> b)"

definition loading_get :: "('a, 'x) RxCacheItem \<Rightarrow> ('a, 'x) RxCacheItem" where
  "loading_get s = s\<lparr>loading_bs := Some (loading_chan s)\<rparr>"

definition saving_chan :: "('a, 'x) RxCacheItem \<Rightarrow> bool BehaviorSubject" where
  "saving_chan s = (case saving_bs s of None \<Rightarrow> new_bs False | Some b \<Rightarrow> b)"

definition saving_get :: "('a, 'x) RxCacheItem \<Rightarrow> ('a, 'x) RxCacheItem" where
  "saving_get s = s\<lparr>saving_bs := Some (saving_chan s)\<rparr>"

definition saved_chan :: "('a, 'x) RxCacheItem \<Rightarrow> bool BehaviorSubject" where
  "saved_chan s = (case saved_bs s of None \<Rightarrow> new_bs False | Some b \<Rightarrow> b)"

definition saved_get :: "('a, 'x) RxCacheItem \<Rightarrow> ('a, 'x) RxCacheItem" where
  "saved_get s = s\<lparr>saved_bs := Some (saved_chan s)\<rparr>"

definition hasError_chan :: "('a, 'x) RxCacheItem \<Rightarrow> bool BehaviorSubject" where
  "hasError_chan s = (case hasError_bs s of None \<Rightarrow> new_bs False | Some b \<Rightarrow> b)"

definition hasError_get :: "('a, 'x) RxCacheItem \<Rightarrow> ('a, 'x) RxCacheItem" where
  "hasError_get s = s\<lparr>hasError_bs := Some (hasError_chan s)\<rparr>"

definition error_chan :: "('a, 'x) RxCacheItem \<Rightarrow> jsstring BehaviorSubject" where
  "error_chan s = (case error_bs s of None \<Rightarrow> new_bs None | Some b \<Rightarrow> b)"

definition error_get :: "('a, 'x) RxCacheItem \<Rightarrow> ('a, 'x) RxCacheItem" where
  "error_get s = s\<lparr>error_bs := Some (error_chan s)\<rparr>"

text \<open>What a caller reads: \<^verbatim>\<open>cell.x$.getValue()\<close> through the public getter; the
  value is read from \<^verbatim>\<open>instance$\<close> itself.\<close>

definition current_value :: "('a, 'x) RxCacheItem \<Rightarrow> 'a option" where
  "current_value s = bs_value (instance_bs s)"

definition is_loaded :: "('a, 'x) RxCacheItem \<Rightarrow> bool" where
  "is_loaded s = bs_value (loaded_chan s)"

definition is_loading :: "('a, 'x) RxCacheItem \<Rightarrow> bool" where
  "is_loading s = bs_value (loading_chan s)"

definition is_saving :: "('a, 'x) RxCacheItem \<Rightarrow> bool" where
  "is_saving s = bs_value (saving_chan s)"

definition is_saved :: "('a, 'x) RxCacheItem \<Rightarrow> bool" where
  "is_saved s = bs_value (saved_chan s)"

definition has_error :: "('a, 'x) RxCacheItem \<Rightarrow> bool" where
  "has_error s = bs_value (hasError_chan s)"

definition error_message :: "('a, 'x) RxCacheItem \<Rightarrow> jsstring" where
  "error_message s = bs_value (error_chan s)"

subsection \<open>Emissions\<close>

text \<open>
  \<^verbatim>\<open>this.x$.next(v)\<close> in two parts. \<open>x_push\<close> is the getter and what \<^verbatim>\<open>next\<close> does
  to the subject it returns; \<open>x_emit\<close> adds the calls of the observers, each of which
  may read \<^verbatim>\<open>cell.value$\<close> before the next statement of the method runs.
\<close>

definition value_push :: "'a option \<Rightarrow> ('a, 'x) RxCacheItem \<Rightarrow> ('a, 'x) RxCacheItem" where
  "value_push v s = s\<lparr>instance_bs := bs_next v (instance_bs s)\<rparr>"

definition loaded_push :: "bool \<Rightarrow> ('a, 'x) RxCacheItem \<Rightarrow> ('a, 'x) RxCacheItem" where
  "loaded_push v s = s\<lparr>loaded_bs := Some (bs_next v (loaded_chan s))\<rparr>"

definition loading_push :: "bool \<Rightarrow> ('a, 'x) RxCacheItem \<Rightarrow> ('a, 'x) RxCacheItem" where
  "loading_push v s = s\<lparr>loading_bs := Some (bs_next v (loading_chan s))\<rparr>"

definition saving_push :: "bool \<Rightarrow> ('a, 'x) RxCacheItem \<Rightarrow> ('a, 'x) RxCacheItem" where
  "saving_push v s = s\<lparr>saving_bs := Some (bs_next v (saving_chan s))\<rparr>"

definition saved_push :: "bool \<Rightarrow> ('a, 'x) RxCacheItem \<Rightarrow> ('a, 'x) RxCacheItem" where
  "saved_push v s = s\<lparr>saved_bs := Some (bs_next v (saved_chan s))\<rparr>"

definition hasError_push :: "bool \<Rightarrow> ('a, 'x) RxCacheItem \<Rightarrow> ('a, 'x) RxCacheItem" where
  "hasError_push v s = s\<lparr>hasError_bs := Some (bs_next v (hasError_chan s))\<rparr>"

definition error_push :: "jsstring \<Rightarrow> ('a, 'x) RxCacheItem \<Rightarrow> ('a, 'x) RxCacheItem" where
  "error_push v s = s\<lparr>error_bs := Some (bs_next v (error_chan s))\<rparr>"

definition value_emit ::
  "('a, 'x) reading \<Rightarrow> 'a option \<Rightarrow> ('a, 'x) RxCacheItem \<Rightarrow> ('a, 'x) RxCacheItem" where
  "value_emit read v s =
     (if isStopped (instance_bs s) then value_push v s
      else tell read (observers (instance_bs s)) v (value_push v s))"

definition loaded_emit ::
  "('a, 'x) reading \<Rightarrow> bool \<Rightarrow> ('a, 'x) RxCacheItem \<Rightarrow> ('a, 'x) RxCacheItem" where
  "loaded_emit read v s =
     (if isStopped (loaded_chan s) then loaded_push v s
      else tell read (observers (loaded_chan s)) v (loaded_push v s))"

definition loading_emit ::
  "('a, 'x) reading \<Rightarrow> bool \<Rightarrow> ('a, 'x) RxCacheItem \<Rightarrow> ('a, 'x) RxCacheItem" where
  "loading_emit read v s =
     (if isStopped (loading_chan s) then loading_push v s
      else tell read (observers (loading_chan s)) v (loading_push v s))"

definition saving_emit ::
  "('a, 'x) reading \<Rightarrow> bool \<Rightarrow> ('a, 'x) RxCacheItem \<Rightarrow> ('a, 'x) RxCacheItem" where
  "saving_emit read v s =
     (if isStopped (saving_chan s) then saving_push v s
      else tell read (observers (saving_chan s)) v (saving_push v s))"

definition saved_emit ::
  "('a, 'x) reading \<Rightarrow> bool \<Rightarrow> ('a, 'x) RxCacheItem \<Rightarrow> ('a, 'x) RxCacheItem" where
  "saved_emit read v s =
     (if isStopped (saved_chan s) then saved_push v s
      else tell read (observers (saved_chan s)) v (saved_push v s))"

definition hasError_emit ::
  "('a, 'x) reading \<Rightarrow> bool \<Rightarrow> ('a, 'x) RxCacheItem \<Rightarrow> ('a, 'x) RxCacheItem" where
  "hasError_emit read v s =
     (if isStopped (hasError_chan s) then hasError_push v s
      else tell read (observers (hasError_chan s)) v (hasError_push v s))"

definition error_emit ::
  "('a, 'x) reading \<Rightarrow> jsstring \<Rightarrow> ('a, 'x) RxCacheItem \<Rightarrow> ('a, 'x) RxCacheItem" where
  "error_emit read v s =
     (if isStopped (error_chan s) then error_push v s
      else tell read (observers (error_chan s)) v (error_push v s))"

subsection \<open>Subscriptions\<close>

text \<open>\<^verbatim>\<open>unsubscribe()\<close>: detach the callbacks of the recorded load, forget it.\<close>

definition unsubscribe :: "('a, 'x) RxCacheItem \<Rightarrow> ('a, 'x) RxCacheItem" where
  "unsubscribe s =
     (case subscription s of
        None \<Rightarrow> s
      | Some h \<Rightarrow> s\<lparr>subscription := None, subscribers := (subscribers s)(h := None)\<rparr>)"

text \<open>
  \<^verbatim>\<open>this.subscription = f().subscribe(onItem, onError)\<close>. Sources and sinks are
  asynchronous: what they produce arrives later, as a notification to the handle.
\<close>

definition subscribe_load :: "source \<Rightarrow> ('a, 'x) RxCacheItem \<Rightarrow> ('a, 'x) RxCacheItem" where
  "subscribe_load f s =
     (let h = next_handle s in
      s\<lparr>subscription := Some h,
        next_handle := Suc h,
        subscribers := (subscribers s)(h \<mapsto> LoadSub),
        loads := (h, f) # loads s\<rparr>)"

text \<open>The end of a subscription: its callbacks are detached.\<close>

definition detach :: "handle \<Rightarrow> ('a, 'x) RxCacheItem \<Rightarrow> ('a, 'x) RxCacheItem" where
  "detach h s = s\<lparr>subscribers := (subscribers s)(h := None)\<rparr>"

text \<open>\<^verbatim>\<open>this.persist(this.instance$.getValue()).pipe(takeUntil(finalise)).subscribe(...)\<close>
  in \<^verbatim>\<open>save\<close>: the sink is called with the current value; the subscription is not
  recorded in the cell.\<close>

definition subscribe_save ::
  "sink \<Rightarrow> callback option \<Rightarrow> ('a, 'x) RxCacheItem \<Rightarrow> ('a, 'x) RxCacheItem" where
  "subscribe_save p cb s =
     s\<lparr>next_handle := Suc (next_handle s),
       subscribers := (subscribers s)(next_handle s \<mapsto> SaveSub cb),
       saves := (next_handle s, p, bs_value (instance_bs s)) # saves s\<rparr>"

text \<open>\<^verbatim>\<open>if (saved) { saved(val); }\<close>: a saved callback, when there is one, is called.\<close>

definition call_saved :: "callback option \<Rightarrow> 'x \<Rightarrow> ('a, 'x) RxCacheItem \<Rightarrow> ('a, 'x) RxCacheItem" where
  "call_saved cb val s = (case cb of None \<Rightarrow> s | Some c \<Rightarrow> s\<lparr>notified := notified s @ [(c, val)]\<rparr>)"

subsection \<open>Loading, and reading the value\<close>

text \<open>\<^verbatim>\<open>refresh()\<close>, given what a read of \<^verbatim>\<open>cell.value$\<close> by an observer does.\<close>

definition refresh_with :: "('a, 'x) reading \<Rightarrow> ('a, 'x) RxCacheItem \<Rightarrow> ('a, 'x) RxCacheItem" where
  "refresh_with read s =
     (case construct s of
        None \<Rightarrow> s
      | Some f \<Rightarrow>
          (let s1 = loading_emit read True s;
               s2 = loaded_emit read False s1;
               s3 = hasError_emit read False s2;
               s4 = error_emit read None s3;
               s5 = unsubscribe s4
           in subscribe_load f s5))"

text \<open>\<^verbatim>\<open>get value$()\<close>: a read that starts a load when a source is configured and the
  cell is not loaded.\<close>

definition value_get_with :: "('a, 'x) reading \<Rightarrow> ('a, 'x) RxCacheItem \<Rightarrow> ('a, 'x) RxCacheItem" where
  "value_get_with read s =
     (case construct s of
        None \<Rightarrow> s
      | Some f \<Rightarrow>
          if \<not> bs_value (loaded_chan s) then refresh_with read (loaded_get s) else loaded_get s)"

text \<open>
  A read of \<^verbatim>\<open>cell.value$\<close> made by an observer while it is handed a value: the
  getter runs inside the \<^verbatim>\<open>next\<close> that called the observer, and the emissions of a
  \<^verbatim>\<open>refresh()\<close> it starts call observers in turn. The number bounds how deep such
  reads may nest: a read that would nest deeper is left out. A run of the class that
  returns nests to some finite depth, and is described by every bound at least that
  large; a run in which the reads nest without end overflows the stack and does not
  return. At bound 0 no observer reads.
\<close>

primrec observer_read :: "nat \<Rightarrow> ('a, 'x) RxCacheItem \<Rightarrow> ('a, 'x) RxCacheItem" where
  "observer_read 0 s = s"
| "observer_read (Suc n) s = value_get_with (observer_read n) s"

subsection \<open>The methods\<close>

text \<open>Every method takes the bound on nested reads first.\<close>

definition refresh :: "nat \<Rightarrow> ('a, 'x) RxCacheItem \<Rightarrow> ('a, 'x) RxCacheItem" where
  "refresh d s = refresh_with (observer_read d) s"

definition value_get :: "nat \<Rightarrow> ('a, 'x) RxCacheItem \<Rightarrow> ('a, 'x) RxCacheItem" where
  "value_get d s = value_get_with (observer_read d) s"

text \<open>The five assignments \<^verbatim>\<open>this.x = config.x || this.x\<close> of \<^verbatim>\<open>configure\<close>.\<close>

definition merge_config ::
  "('a, 'x) RxCacheItemConfig \<Rightarrow> ('a, 'x) RxCacheItem \<Rightarrow> ('a, 'x) RxCacheItem" where
  "merge_config config s =
     s\<lparr>genericError := js_or (c_genericError config) (genericError s),
       construct := fn_or (c_construct config) (construct s),
       persist := fn_or (c_persist config) (persist s),
       saved := fn_or (c_saved config) (saved s),
       errorHandler := fn_or (c_errorHandler config) (errorHandler s)\<rparr>"

definition configure ::
  "nat \<Rightarrow> ('a, 'x) RxCacheItemConfig \<Rightarrow> ('a, 'x) RxCacheItem \<Rightarrow> ('a, 'x) RxCacheItem" where
  "configure d config s =
     (let hasInitialValue = (initialValue config \<noteq> None);
          hasValue = (bs_value (instance_bs s) \<noteq> None);
          s1 = (if hasInitialValue \<and> \<not> hasValue
                then next_if loaded_bs (loaded_emit (observer_read d) True)
                       (value_emit (observer_read d) (initialValue config) s)
                else s);
          s2 = merge_config config s1;
          s3 = (if c_construct config \<noteq> None then unsubscribe s2 else s2)
      in if c_load config then refresh d s3 else s3)"

text \<open>The constructor: fields start \<^verbatim>\<open>undefined\<close>, nothing is subscribed, and no
  channel has an observer yet, so no read can nest.\<close>

definition fresh_item :: "('a, 'x) RxCacheItemConfig \<Rightarrow> ('a, 'x) RxCacheItem" where
  "fresh_item config =
     \<lparr>item_id = c_id config, genericError = None, construct = None, persist = None,
      saved = None, errorHandler = None, subscription = None,
      instance_bs = new_bs (initialValue config),
      loaded_bs = None, loading_bs = None, saving_bs = None, saved_bs = None,
      hasError_bs = None, error_bs = None,
      next_handle = 0, subscribers = Map.empty, loads = [], saves = [], notified = []\<rparr>"

definition new_RxCacheItem :: "('a, 'x) RxCacheItemConfig \<Rightarrow> ('a, 'x) RxCacheItem" where
  "new_RxCacheItem config = configure 0 config (fresh_item config)"

definition update :: "nat \<Rightarrow> 'a option \<Rightarrow> ('a, 'x) RxCacheItem \<Rightarrow> ('a, 'x) RxCacheItem" where
  "update d v s =
     (let s1 = value_emit (observer_read d) v s;
          s2 = next_if hasError_bs (hasError_emit (observer_read d) False) s1;
          s3 = next_if error_bs (error_emit (observer_read d) None) s2;
          s4 = next_if loaded_bs (loaded_emit (observer_read d) True) s3
      in next_if loading_bs (loading_emit (observer_read d) False) s4)"

definition save ::
  "nat \<Rightarrow> callback option \<Rightarrow> ('a, 'x) RxCacheItem \<Rightarrow> ('a, 'x) RxCacheItem" where
  "save d cb s =
     (case persist s of
        None \<Rightarrow> s
      | Some p \<Rightarrow>
          (let s1 = saving_emit (observer_read d) True s;
               s2 = saved_emit (observer_read d) False s1;
               s3 = hasError_emit (observer_read d) False s2;
               s4 = error_emit (observer_read d) None s3
           in subscribe_save p cb s4))"

definition reload :: "nat \<Rightarrow> source \<Rightarrow> ('a, 'x) RxCacheItem \<Rightarrow> ('a, 'x) RxCacheItem" where
  "reload d f s =
     (let s1 = loaded_emit (observer_read d) False s;
          s2 = loading_emit (observer_read d) True s1;
          s3 = hasError_emit (observer_read d) False s2;
          s4 = error_emit (observer_read d) None s3;
          s5 = unsubscribe s4;
          s6 = s5\<lparr>construct := Some f\<rparr>
      in subscribe_load f s6)"

definition reset :: "nat \<Rightarrow> 'a option \<Rightarrow> ('a, 'x) RxCacheItem \<Rightarrow> ('a, 'x) RxCacheItem" where
  "reset d item s =
     (let s1 = next_if loaded_bs (loaded_emit (observer_read d) False) s;
          s2 = next_if loading_bs (loading_emit (observer_read d) False) s1;
          s3 = next_if hasError_bs (hasError_emit (observer_read d) False) s2;
          s4 = next_if error_bs (error_emit (observer_read d) None) s3;
          s5 = value_emit (observer_read d) item s4
      in unsubscribe s5)"

definition finish :: "('a, 'x) RxCacheItem \<Rightarrow> ('a, 'x) RxCacheItem" where
  "finish s =
     unsubscribe
       (s\<lparr>instance_bs := bs_complete (instance_bs s),
          loading_bs := complete_opt (loading_bs s),
          loaded_bs := complete_opt (loaded_bs s),
          error_bs := complete_opt (error_bs s),
          hasError_bs := complete_opt (hasError_bs s)\<rparr>)"

subsection \<open>The error handling chain\<close>

definition generateErrorMessage ::
  "'x GlobalConfig \<Rightarrow> 'x \<Rightarrow> ('a, 'x) RxCacheItem \<Rightarrow> error + jsstring" where
  "generateErrorMessage g err s =
     (case errorHandler s of
        None \<Rightarrow> Inl TypeError
      | Some eh \<Rightarrow> Inr (js_or (js_or (eh err) (genericError s)) (Some (g_genericError g))))"

definition runErrorHandler ::
  "'x GlobalConfig \<Rightarrow> nat \<Rightarrow> 'x \<Rightarrow> ('a, 'x) RxCacheItem \<Rightarrow> error + ('a, 'x) RxCacheItem" where
  "runErrorHandler g d err s =
     (let globalConfigError =
            (case g_errorHandler g of
               Some gh \<Rightarrow> gh err
             | None \<Rightarrow> Some (g_genericError g))
      in case (case errorHandler s of
                 Some eh \<Rightarrow> generateErrorMessage g err s
               | None \<Rightarrow> Inr (genericError s)) of
           Inl e \<Rightarrow> Inl e
         | Inr own \<Rightarrow>
             (let s1 = error_emit (observer_read d)
                         (js_or (js_or own globalConfigError) (Some (g_genericError g))) s;
                  s2 = hasError_emit (observer_read d) True s1;
                  s3 = (if construct s2 \<noteq> None
                        then loading_emit (observer_read d) False
                               (loaded_emit (observer_read d) False s2)
                        else s2);
                  s4 = (if persist s3 \<noteq> None
                        then saving_emit (observer_read d) False
                               (saved_emit (observer_read d) False s3)
                        else s3)
              in Inr s4))"

subsection \<open>The completion callbacks\<close>

text \<open>The \<^verbatim>\<open>item => ...\<close> callback of \<^verbatim>\<open>refresh\<close> and \<^verbatim>\<open>reload\<close>. It runs to its
  end even when an observer's read detaches its subscription on the way.\<close>

definition load_item ::
  "nat \<Rightarrow> 'a option \<Rightarrow> ('a, 'x) RxCacheItem \<Rightarrow> error + ('a, 'x) RxCacheItem" where
  "load_item d item s =
     (let s1 = value_emit (observer_read d) item s
      in case direct_next loaded_bs (loaded_emit (observer_read d) True) s1 of
           Inl e \<Rightarrow> Inl e
         | Inr s2 \<Rightarrow> direct_next loading_bs (loading_emit (observer_read d) False) s2)"

text \<open>The \<^verbatim>\<open>val => ...\<close> callback of \<^verbatim>\<open>save\<close>; \<^verbatim>\<open>finalise.next(true)\<close> ends the
  subscription \<open>h\<close> through \<^verbatim>\<open>takeUntil\<close>.\<close>

definition save_ack ::
  "nat \<Rightarrow> callback option \<Rightarrow> handle \<Rightarrow> 'x \<Rightarrow> ('a, 'x) RxCacheItem
     \<Rightarrow> error + ('a, 'x) RxCacheItem" where
  "save_ack d cb h val s =
     (let s1 = call_saved cb val s;
          s2 = call_saved (saved s1) val s1
      in case direct_next saved_bs (saved_emit (observer_read d) True) s2 of
           Inl e \<Rightarrow> Inl e
         | Inr s3 \<Rightarrow>
             (case direct_next saving_bs (saving_emit (observer_read d) False) s3 of
                Inl e \<Rightarrow> Inl e
              | Inr s4 \<Rightarrow> Inr (detach h s4)))"

text \<open>The \<^verbatim>\<open>(error) => ...\<close> callbacks; a subscription that received an error is
  closed.\<close>

definition on_error ::
  "'x GlobalConfig \<Rightarrow> nat \<Rightarrow> handle \<Rightarrow> 'x \<Rightarrow> ('a, 'x) RxCacheItem
     \<Rightarrow> error + ('a, 'x) RxCacheItem" where
  "on_error g d h err s =
     (case runErrorHandler g d err s of
        Inl e \<Rightarrow> Inl e
      | Inr s' \<Rightarrow> Inr (detach h s'))"

text \<open>
  What a source or a sink can send to a subscription: an item (a source's value), an
  acknowledgement (a sink's value), an error, or its completion. A notification to a
  handle that is no longer attached reaches no callback.
\<close>

datatype ('a, 'x) notification =
  Item handle "'a option"
| Ack handle 'x
| Failure handle 'x
| Completed handle

fun deliver ::
  "'x GlobalConfig \<Rightarrow> nat \<Rightarrow> ('a, 'x) notification \<Rightarrow> ('a, 'x) RxCacheItem
     \<Rightarrow> error + ('a, 'x) RxCacheItem"
where
  "deliver g d (Item h item) s =
     (case subscribers s h of
        Some LoadSub \<Rightarrow> load_item d item s
      | _ \<Rightarrow> Inr s)"
| "deliver g d (Ack h val) s =
     (case subscribers s h of
        Some (SaveSub cb) \<Rightarrow> save_ack d cb h val s
      | _ \<Rightarrow> Inr s)"
| "deliver g d (Failure h err) s =
     (case subscribers s h of
        None \<Rightarrow> Inr s
      | Some k \<Rightarrow> on_error g d h err s)"
| "deliver g d (Completed h) s =
     (case subscribers s h of
        None \<Rightarrow> Inr s
      | Some k \<Rightarrow> Inr (detach h s))"

subsection \<open>Observers subscribing\<close>

text \<open>
  \<^verbatim>\<open>cell.x$.subscribe(observer)\<close>: the getter runs, and unless the channel is completed
  the observer joins it (\<open>x_attach\<close>) and is handed the current value at once.
\<close>

definition value_attach ::
  "'a option observer \<Rightarrow> ('a, 'x) RxCacheItem \<Rightarrow> ('a, 'x) RxCacheItem" where
  "value_attach ob s = s\<lparr>instance_bs := bs_subscribe ob (instance_bs s)\<rparr>"

definition loaded_attach ::
  "bool observer \<Rightarrow> ('a, 'x) RxCacheItem \<Rightarrow> ('a, 'x) RxCacheItem" where
  "loaded_attach ob s = s\<lparr>loaded_bs := Some (bs_subscribe ob (loaded_chan s))\<rparr>"

definition loading_attach ::
  "bool observer \<Rightarrow> ('a, 'x) RxCacheItem \<Rightarrow> ('a, 'x) RxCacheItem" where
  "loading_attach ob s = s\<lparr>loading_bs := Some (bs_subscribe ob (loading_chan s))\<rparr>"

definition saving_attach ::
  "bool observer \<Rightarrow> ('a, 'x) RxCacheItem \<Rightarrow> ('a, 'x) RxCacheItem" where
  "saving_attach ob s = s\<lparr>saving_bs := Some (bs_subscribe ob (saving_chan s))\<rparr>"

definition saved_attach ::
  "bool observer \<Rightarrow> ('a, 'x) RxCacheItem \<Rightarrow> ('a, 'x) RxCacheItem" where
  "saved_attach ob s = s\<lparr>saved_bs := Some (bs_subscribe ob (saved_chan s))\<rparr>"

definition hasError_attach ::
  "bool observer \<Rightarrow> ('a, 'x) RxCacheItem \<Rightarrow> ('a, 'x) RxCacheItem" where
  "hasError_attach ob s = s\<lparr>hasError_bs := Some (bs_subscribe ob (hasError_chan s))\<rparr>"

definition error_attach ::
  "jsstring observer \<Rightarrow> ('a, 'x) RxCacheItem \<Rightarrow> ('a, 'x) RxCacheItem" where
  "error_attach ob s = s\<lparr>error_bs := Some (bs_subscribe ob (error_chan s))\<rparr>"

definition value_observe ::
  "nat \<Rightarrow> 'a option observer \<Rightarrow> ('a, 'x) RxCacheItem \<Rightarrow> ('a, 'x) RxCacheItem" where
  "value_observe d ob s =
     (let s1 = value_get d s
      in if isStopped (instance_bs s1) then s1
         else tell (observer_read d) [ob] (bs_value (instance_bs s1)) (value_attach ob s1))"

definition loaded_observe ::
  "nat \<Rightarrow> bool observer \<Rightarrow> ('a, 'x) RxCacheItem \<Rightarrow> ('a, 'x) RxCacheItem" where
  "loaded_observe d ob s =
     (if isStopped (loaded_chan s) then loaded_get s
      else tell (observer_read d) [ob] (bs_value (loaded_chan s)) (loaded_attach ob s))"

definition loading_observe ::
  "nat \<Rightarrow> bool observer \<Rightarrow> ('a, 'x) RxCacheItem \<Rightarrow> ('a, 'x) RxCacheItem" where
  "loading_observe d ob s =
     (if isStopped (loading_chan s) then loading_get s
      else tell (observer_read d) [ob] (bs_value (loading_chan s)) (loading_attach ob s))"

definition saving_observe ::
  "nat \<Rightarrow> bool observer \<Rightarrow> ('a, 'x) RxCacheItem \<Rightarrow> ('a, 'x) RxCacheItem" where
  "saving_observe d ob s =
     (if isStopped (saving_chan s) then saving_get s
      else tell (observer_read d) [ob] (bs_value (saving_chan s)) (saving_attach ob s))"

definition saved_observe ::
  "nat \<Rightarrow> bool observer \<Rightarrow> ('a, 'x) RxCacheItem \<Rightarrow> ('a, 'x) RxCacheItem" where
  "saved_observe d ob s =
     (if isStopped (saved_chan s) then saved_get s
      else tell (observer_read d) [ob] (bs_value (saved_chan s)) (saved_attach ob s))"

definition hasError_observe ::
  "nat \<Rightarrow> bool observer \<Rightarrow> ('a, 'x) RxCacheItem \<Rightarrow> ('a, 'x) RxCacheItem" where
  "hasError_observe d ob s =
     (if isStopped (hasError_chan s) then hasError_get s
      else tell (observer_read d) [ob] (bs_value (hasError_chan s)) (hasError_attach ob s))"

definition error_observe ::
  "nat \<Rightarrow> jsstring observer \<Rightarrow> ('a, 'x) RxCacheItem \<Rightarrow> ('a, 'x) RxCacheItem" where
  "error_observe d ob s =
     (if isStopped (error_chan s) then error_get s
      else tell (observer_read d) [ob] (bs_value (error_chan s)) (error_attach ob s))"

subsection \<open>Histories\<close>

datatype flag = Loaded | Loading | Saving | Saved | HasError


fun observe :: "nat \<Rightarrow> flag \<Rightarrow> bool observer \<Rightarrow> ('a, 'x) RxCacheItem \<Rightarrow> ('a, 'x) RxCacheItem" where
  "observe d Loaded ob s = loaded_observe d ob s"
| "observe d Loading ob s = loading_observe d ob s"
| "observe d Saving ob s = saving_observe d ob s"
| "observe d Saved ob s = saved_observe d ob s"
| "observe d HasError ob s = hasError_observe d ob s"

text \<open>Everything that can happen to a cell: a call of a public member, an observer
  subscribing to a channel, or a notification from a source or a sink.\<close>

datatype ('a, 'x) call =
  Configure "('a, 'x) RxCacheItemConfig"
| ValueGet
| Getter flag
| ErrorGet
| Update "'a option"
| Save "callback option"
| Reload source
| Reset "'a option"
| Unsubscribe
| Finish
| Refresh
| ObserveValue "'a option observer"
| Observe flag "bool observer"
| ObserveError "jsstring observer"
| Deliver "('a, 'x) notification"



section \<open>The specification's words\<close>

text \<open>
  The error message as the specification describes it, step by step: the global
  fallback message, the cell's own message, and the final choice among them and the
  global generic text. A message is non-empty when it is present and not the empty
  string.
\<close>

definition nonempty :: "jsstring \<Rightarrow> bool" where
  "nonempty m = (case m of None \<Rightarrow> False | Some t \<Rightarrow> t \<noteq> [])"

definition spec_global_fallback :: "'x GlobalConfig \<Rightarrow> 'x \<Rightarrow> jsstring" where
  "spec_global_fallback g err =
     (case g_errorHandler g of Some gh \<Rightarrow> gh err | None \<Rightarrow> Some (g_genericError g))"

definition spec_own_message :: "'x GlobalConfig \<Rightarrow> ('a, 'x) RxCacheItem \<Rightarrow> 'x \<Rightarrow> jsstring" where
  "spec_own_message g s err =
     (case errorHandler s of
        Some eh \<Rightarrow>
          (if nonempty (eh err) then eh err
           else if nonempty (genericError s) then genericError s
           else Some (g_genericError g))
      | None \<Rightarrow> genericError s)"

definition spec_errorMessage :: "'x GlobalConfig \<Rightarrow> ('a, 'x) RxCacheItem \<Rightarrow> 'x \<Rightarrow> jsstring" where
  "spec_errorMessage g s err =
     (if nonempty (spec_own_message g s err) then spec_own_message g s err
      else if nonempty (spec_global_fallback g err) then spec_global_fallback g err
      else Some (g_genericError g))"

section \<open>Concrete cells and observers\<close>

text \<open>A configuration with a source, a sink and a generic error text; one with nothing
  but the id; and the global policy of the specification's scenario.\<close>

definition demo_config :: "(nat, string) RxCacheItemConfig" where
  "demo_config =
     \<lparr>c_id = ''cell'', initialValue = None, c_genericError = Some ''boom'',
      c_construct = Some 1, c_persist = Some 1, c_saved = None, c_errorHandler = None,
      c_load = False\<rparr>"

definition blank_config :: "(nat, string) RxCacheItemConfig" where
  "blank_config =
     \<lparr>c_id = ''cell'', initialValue = None, c_genericError = None,
      c_construct = None, c_persist = None, c_saved = None, c_errorHandler = None,
      c_load = False\<rparr>"

definition demo_global :: "string GlobalConfig" where
  "demo_global = \<lparr>g_errorHandler = None, g_genericError = ''Something went wrong''\<rparr>"

text \<open>
  Three observers that read \<^verbatim>\<open>cell.value$\<close>: one of the value channel, when it is
  handed a value that is present; one of the error message channel, when it is handed
  a message; one of a flag channel, when it is handed \<^verbatim>\<open>true\<close>.
\<close>

definition on_value :: "nat option observer" where
  "on_value = Reader (\<lambda>v. v \<noteq> None)"

definition on_message :: "jsstring observer" where
  "on_message = Reader (\<lambda>m. m \<noteq> None)"

definition on_true :: "bool observer" where
  "on_true = Reader (\<lambda>b. b)"

text \<open>The cell with \<open>on_value\<close> subscribed to \<^verbatim>\<open>value$\<close>: the read of \<^verbatim>\<open>value$\<close>
  that the subscription begins with has started load 0.\<close>

definition demo_observed :: "(nat, string) RxCacheItem" where
  "demo_observed = value_observe 1 on_value (new_RxCacheItem demo_config)"

text \<open>What the item callback of load 0 makes of \<open>demo_observed\<close> when the source
  produces 9: its three statements.\<close>

definition demo_overtaken :: "(nat, string) RxCacheItem" where
  "demo_overtaken =
     loading_emit (observer_read 1) False
       (loaded_emit (observer_read 1) True
          (value_emit (observer_read 1) (Some 9) demo_observed))"

text \<open>The cell with \<open>on_message\<close> subscribed to \<^verbatim>\<open>error$\<close>, and the cell with
  \<open>on_true\<close> subscribed to \<^verbatim>\<open>hasError$\<close>; in both, \<^verbatim>\<open>refresh()\<close> has started
  load 0.\<close>

definition demo_listening :: "(nat, string) RxCacheItem" where
  "demo_listening = refresh 1 (error_observe 1 on_message (new_RxCacheItem demo_config))"

definition demo_flagged :: "(nat, string) RxCacheItem" where
  "demo_flagged = refresh 1 (observe 1 HasError on_true (new_RxCacheItem demo_config))"

text \<open>The cell without observers whose first load failed with "net-down".\<close>

definition demo_failed :: "(nat, string) RxCacheItem" where
  "demo_failed =
     (case deliver demo_global 1 (Failure 0 ''net-down'') (refresh 1 (new_RxCacheItem demo_config)) of
        Inr s \<Rightarrow> s
      | Inl e \<Rightarrow> new_RxCacheItem demo_config)"

section \<open>Properties of states\<close>

subsection \<open>Observers that do not read the value\<close>

fun watcher :: "'v observer \<Rightarrow> bool" where
  "watcher Watcher = True"
| "watcher (Reader p) = False"

text \<open>
  No observer of the error message channel reads \<^verbatim>\<open>cell.value$\<close> while it is handed
  a message; none of the five flag channels does; none of the six status channels
  does. The value channel is not restricted.
\<close>

definition unread_error :: "('a, 'x) RxCacheItem \<Rightarrow> bool" where
  "unread_error s = list_all watcher (observers (error_chan s))"

definition unread_flags :: "('a, 'x) RxCacheItem \<Rightarrow> bool" where
  "unread_flags s =
     (list_all watcher (observers (loaded_chan s)) \<and>
      list_all watcher (observers (loading_chan s)) \<and>
      list_all watcher (observers (saving_chan s)) \<and>
      list_all watcher (observers (saved_chan s)) \<and>
      list_all watcher (observers (hasError_chan s)))"

definition unread :: "('a, 'x) RxCacheItem \<Rightarrow> bool" where
  "unread s = (unread_flags s \<and> unread_error s)"

text \<open>A call that subscribes a reading observer to the error message channel.\<close>

fun error_reader :: "('a, 'x) call \<Rightarrow> bool" where
  "error_reader (ObserveError (Reader p)) = True"
| "error_reader c = False"

subsection \<open>The error flag and the error message\<close>

text \<open>hasError implies that errorMessage is present.\<close>

definition error_inv :: "('a, 'x) RxCacheItem \<Rightarrow> bool" where
  "error_inv s = (has_error s \<longrightarrow> error_message s \<noteq> None)"

text \<open>What one step can do to the pair: leave it, clear it, or raise it.\<close>

definition error_untouched :: "('a, 'x) RxCacheItem \<Rightarrow> ('a, 'x) RxCacheItem \<Rightarrow> bool" where
  "error_untouched s s' = (has_error s' = has_error s \<and> error_message s' = error_message s)"

definition error_cleared :: "('a, 'x) RxCacheItem \<Rightarrow> bool" where
  "error_cleared s' = (\<not> has_error s' \<and> error_message s' = None)"

definition error_raised :: "('a, 'x) RxCacheItem \<Rightarrow> bool" where
  "error_raised s' = (has_error s' \<and> error_message s' \<noteq> None)"

subsection \<open>After finish\<close>


text \<open>
  A channel that existed in the old state is silenced in the new one when it is still
  there, stopped, and has handed its observers nothing more. A state \<open>s\<close> is quiet
  with respect to \<open>t\<close> when the value channel is stopped and has emitted what it had
  in \<open>t\<close>, and the four status channels that \<^verbatim>\<open>finish()\<close> completes are silenced.
\<close>

definition silenced :: "'v BehaviorSubject option \<Rightarrow> 'v BehaviorSubject option \<Rightarrow> bool" where
  "silenced old new =
     (case old of
        None \<Rightarrow> True
      | Some b \<Rightarrow> (case new of None \<Rightarrow> False | Some b' \<Rightarrow> isStopped b' \<and> emitted b' = emitted b))"


subsection \<open>Loads and their subscriptions\<close>

text \<open>The handle of the most recently started load.\<close>

definition latest_load :: "('a, 'x) RxCacheItem \<Rightarrow> handle option" where
  "latest_load s = (case loads s of [] \<Rightarrow> None | (h, f) # older \<Rightarrow> Some h)"

text \<open>
  The bookkeeping of subscriptions is in order when every attached load subscription
  is the one the cell records as active and belongs to the most recently started load,
  and every load ever started has a handle below the next free one that no save
  subscription uses.
\<close>

definition subs_ok ::
  "handle option \<Rightarrow> (handle \<rightharpoonup> subscriber) \<Rightarrow> (handle \<times> source) list \<Rightarrow> handle \<Rightarrow> bool" where
  "subs_ok active attached started fresh =
     ((\<forall>h. attached h = Some LoadSub \<longrightarrow>
           active = Some h \<and> (case started of [] \<Rightarrow> None | (h', f) # older \<Rightarrow> Some h') = Some h) \<and>
      (\<forall>h f. (h, f) \<in> set started \<longrightarrow> h < fresh \<and> (\<forall>cb. attached h \<noteq> Some (SaveSub cb))))"

definition subs_inv :: "('a, 'x) RxCacheItem \<Rightarrow> bool" where
  "subs_inv s = subs_ok (subscription s) (subscribers s) (loads s) (next_handle s)"

subsection \<open>Properties that survive the observers\<close>

text \<open>
  A property of the cell is robust when the steps a read of \<^verbatim>\<open>cell.value$\<close> is made
  of keep it: the \<^verbatim>\<open>loaded$\<close> getter, the four emissions of \<^verbatim>\<open>refresh()\<close> and the
  replacement of the active load by a new one.
\<close>

definition robust :: "(('a, 'x) RxCacheItem \<Rightarrow> bool) \<Rightarrow> bool" where
  "robust P =
     (\<forall>s. P s \<longrightarrow>
        P (loaded_get s) \<and> P (loading_push True s) \<and> P (loaded_push False s) \<and>
        P (hasError_push False s) \<and> P (error_push None s) \<and>
        (\<forall>f. construct s = Some f \<longrightarrow> P (subscribe_load f (unsubscribe s))))"



section \<open>Basic facts\<close>

lemmas chan_defs =
  loaded_chan_def loading_chan_def saving_chan_def saved_chan_def hasError_chan_def error_chan_def

lemmas get_defs =
  loaded_get_def loading_get_def saving_get_def saved_get_def hasError_get_def error_get_def

lemmas obs_defs =
  current_value_def is_loaded_def is_loading_def is_saving_def is_saved_def has_error_def
  error_message_def

lemmas push_defs =
  loaded_push_def loading_push_def saving_push_def saved_push_def hasError_push_def error_push_def

lemmas emit_defs =
  value_emit_def loaded_emit_def loading_emit_def saving_emit_def saved_emit_def hasError_emit_def
  error_emit_def

lemmas attach_defs =
  loaded_attach_def loading_attach_def saving_attach_def saved_attach_def hasError_attach_def
  error_attach_def

lemmas js_defs = truthy_def js_or_def fn_or_def

lemmas spec_defs = nonempty_def spec_global_fallback_def spec_own_message_def spec_errorMessage_def

subsection \<open>Channels\<close>

lemma bs_sel_simps:
  "bs_value (bs_next v b) = v"
  "isStopped (bs_next v b) = isStopped b"
  "emitted (bs_next v b) = (if isStopped b then emitted b else emitted b @ [v])"
  "observers (bs_next v b) = observers b"
  "bs_value (new_bs v) = v"
  "isStopped (new_bs v) = False"
  "emitted (new_bs v) = []"
  "observers (new_bs v) = []"
  "bs_value (bs_complete b) = bs_value b"
  "isStopped (bs_complete b) = True"
  "emitted (bs_complete b) = emitted b"
  "observers (bs_complete b) = []"
  "bs_value (bs_subscribe ob b) = bs_value b"
  "isStopped (bs_subscribe ob b) = isStopped b"
  "emitted (bs_subscribe ob b) = emitted b"
  "observers (bs_subscribe ob b) = observers b @ [ob]"
  by (simp_all add: bs_next_def new_bs_def bs_complete_def bs_subscribe_def)

subsection \<open>What each step leaves as it is\<close>

lemma value_push_fields:
  "item_id (value_push w s) = item_id s"
  "genericError (value_push w s) = genericError s"
  "construct (value_push w s) = construct s"
  "persist (value_push w s) = persist s"
  "saved (value_push w s) = saved s"
  "errorHandler (value_push w s) = errorHandler s"
  "subscription (value_push w s) = subscription s"
  "loaded_bs (value_push w s) = loaded_bs s"
  "loading_bs (value_push w s) = loading_bs s"
  "saving_bs (value_push w s) = saving_bs s"
  "saved_bs (value_push w s) = saved_bs s"
  "hasError_bs (value_push w s) = hasError_bs s"
  "error_bs (value_push w s) = error_bs s"
  "next_handle (value_push w s) = next_handle s"
  "subscribers (value_push w s) = subscribers s"
  "loads (value_push w s) = loads s"
  "saves (value_push w s) = saves s"
  "notified (value_push w s) = notified s"
  by (simp_all add: value_push_def)

lemma loaded_push_fields:
  "item_id (loaded_push vloaded s) = item_id s"
  "genericError (loaded_push vloaded s) = genericError s"
  "construct (loaded_push vloaded s) = construct s"
  "persist (loaded_push vloaded s) = persist s"
  "saved (loaded_push vloaded s) = saved s"
  "errorHandler (loaded_push vloaded s) = errorHandler s"
  "subscription (loaded_push vloaded s) = subscription s"
  "instance_bs (loaded_push vloaded s) = instance_bs s"
  "loading_bs (loaded_push vloaded s) = loading_bs s"
  "saving_bs (loaded_push vloaded s) = saving_bs s"
  "saved_bs (loaded_push vloaded s) = saved_bs s"
  "hasError_bs (loaded_push vloaded s) = hasError_bs s"
  "error_bs (loaded_push vloaded s) = error_bs s"
  "next_handle (loaded_push vloaded s) = next_handle s"
  "subscribers (loaded_push vloaded s) = subscribers s"
  "loads (loaded_push vloaded s) = loads s"
  "saves (loaded_push vloaded s) = saves s"
  "notified (loaded_push vloaded s) = notified s"
  by (simp_all add: loaded_push_def)

lemma loading_push_fields:
  "item_id (loading_push vloading s) = item_id s"
  "genericError (loading_push vloading s) = genericError s"
  "construct (loading_push vloading s) = construct s"
  "persist (loading_push vloading s) = persist s"
  "saved (loading_push vloading s) = saved s"
  "errorHandler (loading_push vloading s) = errorHandler s"
  "subscription (loading_push vloading s) = subscription s"
  "instance_bs (loading_push vloading s) = instance_bs s"
  "loaded_bs (loading_push vloading s) = loaded_bs s"
  "saving_bs (loading_push vloading s) = saving_bs s"
  "saved_bs (loading_push vloading s) = saved_bs s"
  "hasError_bs (loading_push vloading s) = hasError_bs s"
  "error_bs (loading_push vloading s) = error_bs s"
  "next_handle (loading_push vloading s) = next_handle s"
  "subscribers (loading_push vloading s) = subscribers s"
  "loads (loading_push vloading s) = loads s"
  "saves (loading_push vloading s) = saves s"
  "notified (loading_push vloading s) = notified s"
  by (simp_all add: loading_push_def)

lemma saving_push_fields:
  "item_id (saving_push vsaving s) = item_id s"
  "genericError (saving_push vsaving s) = genericError s"
  "construct (saving_push vsaving s) = construct s"
  "persist (saving_push vsaving s) = persist s"
  "saved (saving_push vsaving s) = saved s"
  "errorHandler (saving_push vsaving s) = errorHandler s"
  "subscription (saving_push vsaving s) = subscription s"
  "instance_bs (saving_push vsaving s) = instance_bs s"
  "loaded_bs (saving_push vsaving s) = loaded_bs s"
  "loading_bs (saving_push vsaving s) = loading_bs s"
  "saved_bs (saving_push vsaving s) = saved_bs s"
  "hasError_bs (saving_push vsaving s) = hasError_bs s"
  "error_bs (saving_push vsaving s) = error_bs s"
  "next_handle (saving_push vsaving s) = next_handle s"
  "subscribers (saving_push vsaving s) = subscribers s"
  "loads (saving_push vsaving s) = loads s"
  "saves (saving_push vsaving s) = saves s"
  "notified (saving_push vsaving s) = notified s"
  by (simp_all add: saving_push_def)

lemma saved_push_fields:
  "item_id (saved_push vsaved s) = item_id s"
  "genericError (saved_push vsaved s) = genericError s"
  "construct (saved_push vsaved s) = construct s"
  "persist (saved_push vsaved s) = persist s"
  "saved (saved_push vsaved s) = saved s"
  "errorHandler (saved_push vsaved s) = errorHandler s"
  "subscription (saved_push vsaved s) = subscription s"
  "instance_bs (saved_push vsaved s) = instance_bs s"
  "loaded_bs (saved_push vsaved s) = loaded_bs s"
  "loading_bs (saved_push vsaved s) = loading_bs s"
  "saving_bs (saved_push vsaved s) = saving_bs s"
  "hasError_bs (saved_push vsaved s) = hasError_bs s"
  "error_bs (saved_push vsaved s) = error_bs s"
  "next_handle (saved_push vsaved s) = next_handle s"
  "subscribers (saved_push vsaved s) = subscribers s"
  "loads (saved_push vsaved s) = loads s"
  "saves (saved_push vsaved s) = saves s"
  "notified (saved_push vsaved s) = notified s"
  by (simp_all add: saved_push_def)

lemma hasError_push_fields:
  "item_id (hasError_push vhasError s) = item_id s"
  "genericError (hasError_push vhasError s) = genericError s"
  "construct (hasError_push vhasError s) = construct s"
  "persist (hasError_push vhasError s) = persist s"
  "saved (hasError_push vhasError s) = saved s"
  "errorHandler (hasError_push vhasError s) = errorHandler s"
  "subscription (hasError_push vhasError s) = subscription s"
  "instance_bs (hasError_push vhasError s) = instance_bs s"
  "loaded_bs (hasError_push vhasError s) = loaded_bs s"
  "loading_bs (hasError_push vhasError s) = loading_bs s"
  "saving_bs (hasError_push vhasError s) = saving_bs s"
  "saved_bs (hasError_push vhasError s) = saved_bs s"
  "error_bs (hasError_push vhasError s) = error_bs s"
  "next_handle (hasError_push vhasError s) = next_handle s"
  "subscribers (hasError_push vhasError s) = subscribers s"
  "loads (hasError_push vhasError s) = loads s"
  "saves (hasError_push vhasError s) = saves s"
  "notified (hasError_push vhasError s) = notified s"
  by (simp_all add: hasError_push_def)

lemma error_push_fields:
  "item_id (error_push verror s) = item_id s"
  "genericError (error_push verror s) = genericError s"
  "construct (error_push verror s) = construct s"
  "persist (error_push verror s) = persist s"
  "saved (error_push verror s) = saved s"
  "errorHandler (error_push verror s) = errorHandler s"
  "subscription (error_push verror s) = subscription s"
  "instance_bs (error_push verror s) = instance_bs s"
  "loaded_bs (error_push verror s) = loaded_bs s"
  "loading_bs (error_push verror s) = loading_bs s"
  "saving_bs (error_push verror s) = saving_bs s"
  "saved_bs (error_push verror s) = saved_bs s"
  "hasError_bs (error_push verror s) = hasError_bs s"
  "next_handle (error_push verror s) = next_handle s"
  "subscribers (error_push verror s) = subscribers s"
  "loads (error_push verror s) = loads s"
  "saves (error_push verror s) = saves s"
  "notified (error_push verror s) = notified s"
  by (simp_all add: error_push_def)

lemma loaded_get_fields:
  "item_id (loaded_get s) = item_id s"
  "genericError (loaded_get s) = genericError s"
  "construct (loaded_get s) = construct s"
  "persist (loaded_get s) = persist s"
  "saved (loaded_get s) = saved s"
  "errorHandler (loaded_get s) = errorHandler s"
  "subscription (loaded_get s) = subscription s"
  "instance_bs (loaded_get s) = instance_bs s"
  "loading_bs (loaded_get s) = loading_bs s"
  "saving_bs (loaded_get s) = saving_bs s"
  "saved_bs (loaded_get s) = saved_bs s"
  "hasError_bs (loaded_get s) = hasError_bs s"
  "error_bs (loaded_get s) = error_bs s"
  "next_handle (loaded_get s) = next_handle s"
  "subscribers (loaded_get s) = subscribers s"
  "loads (loaded_get s) = loads s"
  "saves (loaded_get s) = saves s"
  "notified (loaded_get s) = notified s"
  by (simp_all add: loaded_get_def)

lemma loading_get_fields:
  "item_id (loading_get s) = item_id s"
  "genericError (loading_get s) = genericError s"
  "construct (loading_get s) = construct s"
  "persist (loading_get s) = persist s"
  "saved (loading_get s) = saved s"
  "errorHandler (loading_get s) = errorHandler s"
  "subscription (loading_get s) = subscription s"
  "instance_bs (loading_get s) = instance_bs s"
  "loaded_bs (loading_get s) = loaded_bs s"
  "saving_bs (loading_get s) = saving_bs s"
  "saved_bs (loading_get s) = saved_bs s"
  "hasError_bs (loading_get s) = hasError_bs s"
  "error_bs (loading_get s) = error_bs s"
  "next_handle (loading_get s) = next_handle s"
  "subscribers (loading_get s) = subscribers s"
  "loads (loading_get s) = loads s"
  "saves (loading_get s) = saves s"
  "notified (loading_get s) = notified s"
  by (simp_all add: loading_get_def)

lemma saving_get_fields:
  "item_id (saving_get s) = item_id s"
  "genericError (saving_get s) = genericError s"
  "construct (saving_get s) = construct s"
  "persist (saving_get s) = persist s"
  "saved (saving_get s) = saved s"
  "errorHandler (saving_get s) = errorHandler s"
  "subscription (saving_get s) = subscription s"
  "instance_bs (saving_get s) = instance_bs s"
  "loaded_bs (saving_get s) = loaded_bs s"
  "loading_bs (saving_get s) = loading_bs s"
  "saved_bs (saving_get s) = saved_bs s"
  "hasError_bs (saving_get s) = hasError_bs s"
  "error_bs (saving_get s) = error_bs s"
  "next_handle (saving_get s) = next_handle s"
  "subscribers (saving_get s) = subscribers s"
  "loads (saving_get s) = loads s"
  "saves (saving_get s) = saves s"
  "notified (saving_get s) = notified s"
  by (simp_all add: saving_get_def)

lemma saved_get_fields:
  "item_id (saved_get s) = item_id s"
  "genericError (saved_get s) = genericError s"
  "construct (saved_get s) = construct s"
  "persist (saved_get s) = persist s"
  "saved (saved_get s) = saved s"
  "errorHandler (saved_get s) = errorHandler s"
  "subscription (saved_get s) = subscription s"
  "instance_bs (saved_get s) = instance_bs s"
  "loaded_bs (saved_get s) = loaded_bs s"
  "loading_bs (saved_get s) = loading_bs s"
  "saving_bs (saved_get s) = saving_bs s"
  "hasError_bs (saved_get s) = hasError_bs s"
  "error_bs (saved_get s) = error_bs s"
  "next_handle (saved_get s) = next_handle s"
  "subscribers (saved_get s) = subscribers s"
  "loads (saved_get s) = loads s"
  "saves (saved_get s) = saves s"
  "notified (saved_get s) = notified s"
  by (simp_all add: saved_get_def)

lemma hasError_get_fields:
  "item_id (hasError_get s) = item_id s"
  "genericError (hasError_get s) = genericError s"
  "construct (hasError_get s) = construct s"
  "persist (hasError_get s) = persist s"
  "saved (hasError_get s) = saved s"
  "errorHandler (hasError_get s) = errorHandler s"
  "subscription (hasError_get s) = subscription s"
  "instance_bs (hasError_get s) = instance_bs s"
  "loaded_bs (hasError_get s) = loaded_bs s"
  "loading_bs (hasError_get s) = loading_bs s"
  "saving_bs (hasError_get s) = saving_bs s"
  "saved_bs (hasError_get s) = saved_bs s"
  "error_bs (hasError_get s) = error_bs s"
  "next_handle (hasError_get s) = next_handle s"
  "subscribers (hasError_get s) = subscribers s"
  "loads (hasError_get s) = loads s"
  "saves (hasError_get s) = saves s"
  "notified (hasError_get s) = notified s"
  by (simp_all add: hasError_get_def)

lemma error_get_fields:
  "item_id (error_get s) = item_id s"
  "genericError (error_get s) = genericError s"
  "construct (error_get s) = construct s"
  "persist (error_get s) = persist s"
  "saved (error_get s) = saved s"
  "errorHandler (error_get s) = errorHandler s"
  "subscription (error_get s) = subscription s"
  "instance_bs (error_get s) = instance_bs s"
  "loaded_bs (error_get s) = loaded_bs s"
  "loading_bs (error_get s) = loading_bs s"
  "saving_bs (error_get s) = saving_bs s"
  "saved_bs (error_get s) = saved_bs s"
  "hasError_bs (error_get s) = hasError_bs s"
  "next_handle (error_get s) = next_handle s"
  "subscribers (error_get s) = subscribers s"
  "loads (error_get s) = loads s"
  "saves (error_get s) = saves s"
  "notified (error_get s) = notified s"
  by (simp_all add: error_get_def)

lemma value_attach_fields:
  "item_id (value_attach obv s) = item_id s"
  "genericError (value_attach obv s) = genericError s"
  "construct (value_attach obv s) = construct s"
  "persist (value_attach obv s) = persist s"
  "saved (value_attach obv s) = saved s"
  "errorHandler (value_attach obv s) = errorHandler s"
  "subscription (value_attach obv s) = subscription s"
  "loaded_bs (value_attach obv s) = loaded_bs s"
  "loading_bs (value_attach obv s) = loading_bs s"
  "saving_bs (value_attach obv s) = saving_bs s"
  "saved_bs (value_attach obv s) = saved_bs s"
  "hasError_bs (value_attach obv s) = hasError_bs s"
  "error_bs (value_attach obv s) = error_bs s"
  "next_handle (value_attach obv s) = next_handle s"
  "subscribers (value_attach obv s) = subscribers s"
  "loads (value_attach obv s) = loads s"
  "saves (value_attach obv s) = saves s"
  "notified (value_attach obv s) = notified s"
  by (simp_all add: value_attach_def)

lemma loaded_attach_fields:
  "item_id (loaded_attach obloaded s) = item_id s"
  "genericError (loaded_attach obloaded s) = genericError s"
  "construct (loaded_attach obloaded s) = construct s"
  "persist (loaded_attach obloaded s) = persist s"
  "saved (loaded_attach obloaded s) = saved s"
  "errorHandler (loaded_attach obloaded s) = errorHandler s"
  "subscription (loaded_attach obloaded s) = subscription s"
  "instance_bs (loaded_attach obloaded s) = instance_bs s"
  "loading_bs (loaded_attach obloaded s) = loading_bs s"
  "saving_bs (loaded_attach obloaded s) = saving_bs s"
  "saved_bs (loaded_attach obloaded s) = saved_bs s"
  "hasError_bs (loaded_attach obloaded s) = hasError_bs s"
  "error_bs (loaded_attach obloaded s) = error_bs s"
  "next_handle (loaded_attach obloaded s) = next_handle s"
  "subscribers (loaded_attach obloaded s) = subscribers s"
  "loads (loaded_attach obloaded s) = loads s"
  "saves (loaded_attach obloaded s) = saves s"
  "notified (loaded_attach obloaded s) = notified s"
  by (simp_all add: loaded_attach_def)

lemma loading_attach_fields:
  "item_id (loading_attach obloading s) = item_id s"
  "genericError (loading_attach obloading s) = genericError s"
  "construct (loading_attach obloading s) = construct s"
  "persist (loading_attach obloading s) = persist s"
  "saved (loading_attach obloading s) = saved s"
  "errorHandler (loading_attach obloading s) = errorHandler s"
  "subscription (loading_attach obloading s) = subscription s"
  "instance_bs (loading_attach obloading s) = instance_bs s"
  "loaded_bs (loading_attach obloading s) = loaded_bs s"
  "saving_bs (loading_attach obloading s) = saving_bs s"
  "saved_bs (loading_attach obloading s) = saved_bs s"
  "hasError_bs (loading_attach obloading s) = hasError_bs s"
  "error_bs (loading_attach obloading s) = error_bs s"
  "next_handle (loading_attach obloading s) = next_handle s"
  "subscribers (loading_attach obloading s) = subscribers s"
  "loads (loading_attach obloading s) = loads s"
  "saves (loading_attach obloading s) = saves s"
  "notified (loading_attach obloading s) = notified s"
  by (simp_all add: loading_attach_def)

lemma saving_attach_fields:
  "item_id (saving_attach obsaving s) = item_id s"
  "genericError (saving_attach obsaving s) = genericError s"
  "construct (saving_attach obsaving s) = construct s"
  "persist (saving_attach obsaving s) = persist s"
  "saved (saving_attach obsaving s) = saved s"
  "errorHandler (saving_attach obsaving s) = errorHandler s"
  "subscription (saving_attach obsaving s) = subscription s"
  "instance_bs (saving_attach obsaving s) = instance_bs s"
  "loaded_bs (saving_attach obsaving s) = loaded_bs s"
  "loading_bs (saving_attach obsaving s) = loading_bs s"
  "saved_bs (saving_attach obsaving s) = saved_bs s"
  "hasError_bs (saving_attach obsaving s) = hasError_bs s"
  "error_bs (saving_attach obsaving s) = error_bs s"
  "next_handle (saving_attach obsaving s) = next_handle s"
  "subscribers (saving_attach obsaving s) = subscribers s"
  "loads (saving_attach obsaving s) = loads s"
  "saves (saving_attach obsaving s) = saves s"
  "notified (saving_attach obsaving s) = notified s"
  by (simp_all add: saving_attach_def)

lemma saved_attach_fields:
  "item_id (saved_attach obsaved s) = item_id s"
  "genericError (saved_attach obsaved s) = genericError s"
  "construct (saved_attach obsaved s) = construct s"
  "persist (saved_attach obsaved s) = persist s"
  "saved (saved_attach obsaved s) = saved s"
  "errorHandler (saved_attach obsaved s) = errorHandler s"
  "subscription (saved_attach obsaved s) = subscription s"
  "instance_bs (saved_attach obsaved s) = instance_bs s"
  "loaded_bs (saved_attach obsaved s) = loaded_bs s"
  "loading_bs (saved_attach obsaved s) = loading_bs s"
  "saving_bs (saved_attach obsaved s) = saving_bs s"
  "hasError_bs (saved_attach obsaved s) = hasError_bs s"
  "error_bs (saved_attach obsaved s) = error_bs s"
  "next_handle (saved_attach obsaved s) = next_handle s"
  "subscribers (saved_attach obsaved s) = subscribers s"
  "loads (saved_attach obsaved s) = loads s"
  "saves (saved_attach obsaved s) = saves s"
  "notified (saved_attach obsaved s) = notified s"
  by (simp_all add: saved_attach_def)

lemma hasError_attach_fields:
  "item_id (hasError_attach obhasError s) = item_id s"
  "genericError (hasError_attach obhasError s) = genericError s"
  "construct (hasError_attach obhasError s) = construct s"
  "persist (hasError_attach obhasError s) = persist s"
  "saved (hasError_attach obhasError s) = saved s"
  "errorHandler (hasError_attach obhasError s) = errorHandler s"
  "subscription (hasError_attach obhasError s) = subscription s"
  "instance_bs (hasError_attach obhasError s) = instance_bs s"
  "loaded_bs (hasError_attach obhasError s) = loaded_bs s"
  "loading_bs (hasError_attach obhasError s) = loading_bs s"
  "saving_bs (hasError_attach obhasError s) = saving_bs s"
  "saved_bs (hasError_attach obhasError s) = saved_bs s"
  "error_bs (hasError_attach obhasError s) = error_bs s"
  "next_handle (hasError_attach obhasError s) = next_handle s"
  "subscribers (hasError_attach obhasError s) = subscribers s"
  "loads (hasError_attach obhasError s) = loads s"
  "saves (hasError_attach obhasError s) = saves s"
  "notified (hasError_attach obhasError s) = notified s"
  by (simp_all add: hasError_attach_def)

lemma error_attach_fields:
  "item_id (error_attach oberror s) = item_id s"
  "genericError (error_attach oberror s) = genericError s"
  "construct (error_attach oberror s) = construct s"
  "persist (error_attach oberror s) = persist s"
  "saved (error_attach oberror s) = saved s"
  "errorHandler (error_attach oberror s) = errorHandler s"
  "subscription (error_attach oberror s) = subscription s"
  "instance_bs (error_attach oberror s) = instance_bs s"
  "loaded_bs (error_attach oberror s) = loaded_bs s"
  "loading_bs (error_attach oberror s) = loading_bs s"
  "saving_bs (error_attach oberror s) = saving_bs s"
  "saved_bs (error_attach oberror s) = saved_bs s"
  "hasError_bs (error_attach oberror s) = hasError_bs s"
  "next_handle (error_attach oberror s) = next_handle s"
  "subscribers (error_attach oberror s) = subscribers s"
  "loads (error_attach oberror s) = loads s"
  "saves (error_attach oberror s) = saves s"
  "notified (error_attach oberror s) = notified s"
  by (simp_all add: error_attach_def)

lemma unsubscribe_fields:
  "item_id (unsubscribe s) = item_id s"
  "genericError (unsubscribe s) = genericError s"
  "construct (unsubscribe s) = construct s"
  "persist (unsubscribe s) = persist s"
  "saved (unsubscribe s) = saved s"
  "errorHandler (unsubscribe s) = errorHandler s"
  "instance_bs (unsubscribe s) = instance_bs s"
  "loaded_bs (unsubscribe s) = loaded_bs s"
  "loading_bs (unsubscribe s) = loading_bs s"
  "saving_bs (unsubscribe s) = saving_bs s"
  "saved_bs (unsubscribe s) = saved_bs s"
  "hasError_bs (unsubscribe s) = hasError_bs s"
  "error_bs (unsubscribe s) = error_bs s"
  "next_handle (unsubscribe s) = next_handle s"
  "loads (unsubscribe s) = loads s"
  "saves (unsubscribe s) = saves s"
  "notified (unsubscribe s) = notified s"
  by (simp_all add: unsubscribe_def split: option.splits)

lemma subscribe_load_fields:
  "item_id (subscribe_load f s) = item_id s"
  "genericError (subscribe_load f s) = genericError s"
  "construct (subscribe_load f s) = construct s"
  "persist (subscribe_load f s) = persist s"
  "saved (subscribe_load f s) = saved s"
  "errorHandler (subscribe_load f s) = errorHandler s"
  "instance_bs (subscribe_load f s) = instance_bs s"
  "loaded_bs (subscribe_load f s) = loaded_bs s"
  "loading_bs (subscribe_load f s) = loading_bs s"
  "saving_bs (subscribe_load f s) = saving_bs s"
  "saved_bs (subscribe_load f s) = saved_bs s"
  "hasError_bs (subscribe_load f s) = hasError_bs s"
  "error_bs (subscribe_load f s) = error_bs s"
  "saves (subscribe_load f s) = saves s"
  "notified (subscribe_load f s) = notified s"
  by (simp_all add: subscribe_load_def Let_def)

lemma detach_fields:
  "item_id (detach h s) = item_id s"
  "genericError (detach h s) = genericError s"
  "construct (detach h s) = construct s"
  "persist (detach h s) = persist s"
  "saved (detach h s) = saved s"
  "errorHandler (detach h s) = errorHandler s"
  "subscription (detach h s) = subscription s"
  "instance_bs (detach h s) = instance_bs s"
  "loaded_bs (detach h s) = loaded_bs s"
  "loading_bs (detach h s) = loading_bs s"
  "saving_bs (detach h s) = saving_bs s"
  "saved_bs (detach h s) = saved_bs s"
  "hasError_bs (detach h s) = hasError_bs s"
  "error_bs (detach h s) = error_bs s"
  "next_handle (detach h s) = next_handle s"
  "loads (detach h s) = loads s"
  "saves (detach h s) = saves s"
  "notified (detach h s) = notified s"
  by (simp_all add: detach_def)

lemma subscribe_save_fields:
  "item_id (subscribe_save p cb s) = item_id s"
  "genericError (subscribe_save p cb s) = genericError s"
  "construct (subscribe_save p cb s) = construct s"
  "persist (subscribe_save p cb s) = persist s"
  "saved (subscribe_save p cb s) = saved s"
  "errorHandler (subscribe_save p cb s) = errorHandler s"
  "subscription (subscribe_save p cb s) = subscription s"
  "instance_bs (subscribe_save p cb s) = instance_bs s"
  "loaded_bs (subscribe_save p cb s) = loaded_bs s"
  "loading_bs (subscribe_save p cb s) = loading_bs s"
  "saving_bs (subscribe_save p cb s) = saving_bs s"
  "saved_bs (subscribe_save p cb s) = saved_bs s"
  "hasError_bs (subscribe_save p cb s) = hasError_bs s"
  "error_bs (subscribe_save p cb s) = error_bs s"
  "loads (subscribe_save p cb s) = loads s"
  "notified (subscribe_save p cb s) = notified s"
  by (simp_all add: subscribe_save_def)

lemma call_saved_fields:
  "item_id (call_saved cb val s) = item_id s"
  "genericError (call_saved cb val s) = genericError s"
  "construct (call_saved cb val s) = construct s"
  "persist (call_saved cb val s) = persist s"
  "saved (call_saved cb val s) = saved s"
  "errorHandler (call_saved cb val s) = errorHandler s"
  "subscription (call_saved cb val s) = subscription s"
  "instance_bs (call_saved cb val s) = instance_bs s"
  "loaded_bs (call_saved cb val s) = loaded_bs s"
  "loading_bs (call_saved cb val s) = loading_bs s"
  "saving_bs (call_saved cb val s) = saving_bs s"
  "saved_bs (call_saved cb val s) = saved_bs s"
  "hasError_bs (call_saved cb val s) = hasError_bs s"
  "error_bs (call_saved cb val s) = error_bs s"
  "next_handle (call_saved cb val s) = next_handle s"
  "subscribers (call_saved cb val s) = subscribers s"
  "loads (call_saved cb val s) = loads s"
  "saves (call_saved cb val s) = saves s"
  by (simp_all add: call_saved_def split: option.splits)

lemma merge_config_fields:
  "item_id (merge_config config s) = item_id s"
  "subscription (merge_config config s) = subscription s"
  "instance_bs (merge_config config s) = instance_bs s"
  "loaded_bs (merge_config config s) = loaded_bs s"
  "loading_bs (merge_config config s) = loading_bs s"
  "saving_bs (merge_config config s) = saving_bs s"
  "saved_bs (merge_config config s) = saved_bs s"
  "hasError_bs (merge_config config s) = hasError_bs s"
  "error_bs (merge_config config s) = error_bs s"
  "next_handle (merge_config config s) = next_handle s"
  "subscribers (merge_config config s) = subscribers s"
  "loads (merge_config config s) = loads s"
  "saves (merge_config config s) = saves s"
  "notified (merge_config config s) = notified s"
  by (simp_all add: merge_config_def)

lemma touched_fields:
  "instance_bs (value_push w s) = bs_next w (instance_bs s)"
  "instance_bs (value_attach obv s) = bs_subscribe obv (instance_bs s)"
  "loaded_bs (loaded_push vloaded s) = Some (bs_next vloaded (loaded_chan s))"
  "loaded_bs (loaded_get s) = Some (loaded_chan s)"
  "loaded_bs (loaded_attach obloaded s) = Some (bs_subscribe obloaded (loaded_chan s))"
  "loading_bs (loading_push vloading s) = Some (bs_next vloading (loading_chan s))"
  "loading_bs (loading_get s) = Some (loading_chan s)"
  "loading_bs (loading_attach obloading s) = Some (bs_subscribe obloading (loading_chan s))"
  "saving_bs (saving_push vsaving s) = Some (bs_next vsaving (saving_chan s))"
  "saving_bs (saving_get s) = Some (saving_chan s)"
  "saving_bs (saving_attach obsaving s) = Some (bs_subscribe obsaving (saving_chan s))"
  "saved_bs (saved_push vsaved s) = Some (bs_next vsaved (saved_chan s))"
  "saved_bs (saved_get s) = Some (saved_chan s)"
  "saved_bs (saved_attach obsaved s) = Some (bs_subscribe obsaved (saved_chan s))"
  "hasError_bs (hasError_push vhasError s) = Some (bs_next vhasError (hasError_chan s))"
  "hasError_bs (hasError_get s) = Some (hasError_chan s)"
  "hasError_bs (hasError_attach obhasError s) = Some (bs_subscribe obhasError (hasError_chan s))"
  "error_bs (error_push verror s) = Some (bs_next verror (error_chan s))"
  "error_bs (error_get s) = Some (error_chan s)"
  "error_bs (error_attach oberror s) = Some (bs_subscribe oberror (error_chan s))"
  by (simp_all add: value_push_def value_attach_def push_defs get_defs attach_defs)

lemmas step_fields =
  value_push_fields
  loaded_push_fields
  loading_push_fields
  saving_push_fields
  saved_push_fields
  hasError_push_fields
  error_push_fields
  loaded_get_fields
  loading_get_fields
  saving_get_fields
  saved_get_fields
  hasError_get_fields
  error_get_fields
  value_attach_fields
  loaded_attach_fields
  loading_attach_fields
  saving_attach_fields
  saved_attach_fields
  hasError_attach_fields
  error_attach_fields
  unsubscribe_fields
  subscribe_load_fields
  detach_fields
  subscribe_save_fields
  call_saved_fields
  merge_config_fields

subsection \<open>What the getters return\<close>

text \<open>The channel a getter returns depends on its own private field only (the loaded
  channel also on the value, while it is not materialised).\<close>

lemma loaded_chan_update:
  "loaded_chan (s\<lparr>item_id := x0\<rparr>) = loaded_chan s"
  "loaded_chan (s\<lparr>genericError := x1\<rparr>) = loaded_chan s"
  "loaded_chan (s\<lparr>construct := x2\<rparr>) = loaded_chan s"
  "loaded_chan (s\<lparr>persist := x3\<rparr>) = loaded_chan s"
  "loaded_chan (s\<lparr>saved := x4\<rparr>) = loaded_chan s"
  "loaded_chan (s\<lparr>errorHandler := x5\<rparr>) = loaded_chan s"
  "loaded_chan (s\<lparr>subscription := x6\<rparr>) = loaded_chan s"
  "loaded_chan (s\<lparr>loading_bs := x9\<rparr>) = loaded_chan s"
  "loaded_chan (s\<lparr>saving_bs := x10\<rparr>) = loaded_chan s"
  "loaded_chan (s\<lparr>saved_bs := x11\<rparr>) = loaded_chan s"
  "loaded_chan (s\<lparr>hasError_bs := x12\<rparr>) = loaded_chan s"
  "loaded_chan (s\<lparr>error_bs := x13\<rparr>) = loaded_chan s"
  "loaded_chan (s\<lparr>next_handle := x14\<rparr>) = loaded_chan s"
  "loaded_chan (s\<lparr>subscribers := x15\<rparr>) = loaded_chan s"
  "loaded_chan (s\<lparr>loads := x16\<rparr>) = loaded_chan s"
  "loaded_chan (s\<lparr>saves := x17\<rparr>) = loaded_chan s"
  "loaded_chan (s\<lparr>notified := x18\<rparr>) = loaded_chan s"
  "loaded_chan (s\<lparr>loaded_bs := Some b\<rparr>) = b"
  by (simp_all add: loaded_chan_def cong: option.case_cong)

lemma loading_chan_update:
  "loading_chan (s\<lparr>item_id := x0\<rparr>) = loading_chan s"
  "loading_chan (s\<lparr>genericError := x1\<rparr>) = loading_chan s"
  "loading_chan (s\<lparr>construct := x2\<rparr>) = loading_chan s"
  "loading_chan (s\<lparr>persist := x3\<rparr>) = loading_chan s"
  "loading_chan (s\<lparr>saved := x4\<rparr>) = loading_chan s"
  "loading_chan (s\<lparr>errorHandler := x5\<rparr>) = loading_chan s"
  "loading_chan (s\<lparr>subscription := x6\<rparr>) = loading_chan s"
  "loading_chan (s\<lparr>instance_bs := x7\<rparr>) = loading_chan s"
  "loading_chan (s\<lparr>loaded_bs := x8\<rparr>) = loading_chan s"
  "loading_chan (s\<lparr>saving_bs := x10\<rparr>) = loading_chan s"
  "loading_chan (s\<lparr>saved_bs := x11\<rparr>) = loading_chan s"
  "loading_chan (s\<lparr>hasError_bs := x12\<rparr>) = loading_chan s"
  "loading_chan (s\<lparr>error_bs := x13\<rparr>) = loading_chan s"
  "loading_chan (s\<lparr>next_handle := x14\<rparr>) = loading_chan s"
  "loading_chan (s\<lparr>subscribers := x15\<rparr>) = loading_chan s"
  "loading_chan (s\<lparr>loads := x16\<rparr>) = loading_chan s"
  "loading_chan (s\<lparr>saves := x17\<rparr>) = loading_chan s"
  "loading_chan (s\<lparr>notified := x18\<rparr>) = loading_chan s"
  "loading_chan (s\<lparr>loading_bs := Some b\<rparr>) = b"
  by (simp_all add: loading_chan_def cong: option.case_cong)

lemma saving_chan_update:
  "saving_chan (s\<lparr>item_id := x0\<rparr>) = saving_chan s"
  "saving_chan (s\<lparr>genericError := x1\<rparr>) = saving_chan s"
  "saving_chan (s\<lparr>construct := x2\<rparr>) = saving_chan s"
  "saving_chan (s\<lparr>persist := x3\<rparr>) = saving_chan s"
  "saving_chan (s\<lparr>saved := x4\<rparr>) = saving_chan s"
  "saving_chan (s\<lparr>errorHandler := x5\<rparr>) = saving_chan s"
  "saving_chan (s\<lparr>subscription := x6\<rparr>) = saving_chan s"
  "saving_chan (s\<lparr>instance_bs := x7\<rparr>) = saving_chan s"
  "saving_chan (s\<lparr>loaded_bs := x8\<rparr>) = saving_chan s"
  "saving_chan (s\<lparr>loading_bs := x9\<rparr>) = saving_chan s"
  "saving_chan (s\<lparr>saved_bs := x11\<rparr>) = saving_chan s"
  "saving_chan (s\<lparr>hasError_bs := x12\<rparr>) = saving_chan s"
  "saving_chan (s\<lparr>error_bs := x13\<rparr>) = saving_chan s"
  "saving_chan (s\<lparr>next_handle := x14\<rparr>) = saving_chan s"
  "saving_chan (s\<lparr>subscribers := x15\<rparr>) = saving_chan s"
  "saving_chan (s\<lparr>loads := x16\<rparr>) = saving_chan s"
  "saving_chan (s\<lparr>saves := x17\<rparr>) = saving_chan s"
  "saving_chan (s\<lparr>notified := x18\<rparr>) = saving_chan s"
  "saving_chan (s\<lparr>saving_bs := Some b\<rparr>) = b"
  by (simp_all add: saving_chan_def cong: option.case_cong)

lemma saved_chan_update:
  "saved_chan (s\<lparr>item_id := x0\<rparr>) = saved_chan s"
  "saved_chan (s\<lparr>genericError := x1\<rparr>) = saved_chan s"
  "saved_chan (s\<lparr>construct := x2\<rparr>) = saved_chan s"
  "saved_chan (s\<lparr>persist := x3\<rparr>) = saved_chan s"
  "saved_chan (s\<lparr>saved := x4\<rparr>) = saved_chan s"
  "saved_chan (s\<lparr>errorHandler := x5\<rparr>) = saved_chan s"
  "saved_chan (s\<lparr>subscription := x6\<rparr>) = saved_chan s"
  "saved_chan (s\<lparr>instance_bs := x7\<rparr>) = saved_chan s"
  "saved_chan (s\<lparr>loaded_bs := x8\<rparr>) = saved_chan s"
  "saved_chan (s\<lparr>loading_bs := x9\<rparr>) = saved_chan s"
  "saved_chan (s\<lparr>saving_bs := x10\<rparr>) = saved_chan s"
  "saved_chan (s\<lparr>hasError_bs := x12\<rparr>) = saved_chan s"
  "saved_chan (s\<lparr>error_bs := x13\<rparr>) = saved_chan s"
  "saved_chan (s\<lparr>next_handle := x14\<rparr>) = saved_chan s"
  "saved_chan (s\<lparr>subscribers := x15\<rparr>) = saved_chan s"
  "saved_chan (s\<lparr>loads := x16\<rparr>) = saved_chan s"
  "saved_chan (s\<lparr>saves := x17\<rparr>) = saved_chan s"
  "saved_chan (s\<lparr>notified := x18\<rparr>) = saved_chan s"
  "saved_chan (s\<lparr>saved_bs := Some b\<rparr>) = b"
  by (simp_all add: saved_chan_def cong: option.case_cong)

lemma hasError_chan_update:
  "hasError_chan (s\<lparr>item_id := x0\<rparr>) = hasError_chan s"
  "hasError_chan (s\<lparr>genericError := x1\<rparr>) = hasError_chan s"
  "hasError_chan (s\<lparr>construct := x2\<rparr>) = hasError_chan s"
  "hasError_chan (s\<lparr>persist := x3\<rparr>) = hasError_chan s"
  "hasError_chan (s\<lparr>saved := x4\<rparr>) = hasError_chan s"
  "hasError_chan (s\<lparr>errorHandler := x5\<rparr>) = hasError_chan s"
  "hasError_chan (s\<lparr>subscription := x6\<rparr>) = hasError_chan s"
  "hasError_chan (s\<lparr>instance_bs := x7\<rparr>) = hasError_chan s"
  "hasError_chan (s\<lparr>loaded_bs := x8\<rparr>) = hasError_chan s"
  "hasError_chan (s\<lparr>loading_bs := x9\<rparr>) = hasError_chan s"
  "hasError_chan (s\<lparr>saving_bs := x10\<rparr>) = hasError_chan s"
  "hasError_chan (s\<lparr>saved_bs := x11\<rparr>) = hasError_chan s"
  "hasError_chan (s\<lparr>error_bs := x13\<rparr>) = hasError_chan s"
  "hasError_chan (s\<lparr>next_handle := x14\<rparr>) = hasError_chan s"
  "hasError_chan (s\<lparr>subscribers := x15\<rparr>) = hasError_chan s"
  "hasError_chan (s\<lparr>loads := x16\<rparr>) = hasError_chan s"
  "hasError_chan (s\<lparr>saves := x17\<rparr>) = hasError_chan s"
  "hasError_chan (s\<lparr>notified := x18\<rparr>) = hasError_chan s"
  "hasError_chan (s\<lparr>hasError_bs := Some b\<rparr>) = b"
  by (simp_all add: hasError_chan_def cong: option.case_cong)

lemma error_chan_update:
  "error_chan (s\<lparr>item_id := x0\<rparr>) = error_chan s"
  "error_chan (s\<lparr>genericError := x1\<rparr>) = error_chan s"
  "error_chan (s\<lparr>construct := x2\<rparr>) = error_chan s"
  "error_chan (s\<lparr>persist := x3\<rparr>) = error_chan s"
  "error_chan (s\<lparr>saved := x4\<rparr>) = error_chan s"
  "error_chan (s\<lparr>errorHandler := x5\<rparr>) = error_chan s"
  "error_chan (s\<lparr>subscription := x6\<rparr>) = error_chan s"
  "error_chan (s\<lparr>instance_bs := x7\<rparr>) = error_chan s"
  "error_chan (s\<lparr>loaded_bs := x8\<rparr>) = error_chan s"
  "error_chan (s\<lparr>loading_bs := x9\<rparr>) = error_chan s"
  "error_chan (s\<lparr>saving_bs := x10\<rparr>) = error_chan s"
  "error_chan (s\<lparr>saved_bs := x11\<rparr>) = error_chan s"
  "error_chan (s\<lparr>hasError_bs := x12\<rparr>) = error_chan s"
  "error_chan (s\<lparr>next_handle := x14\<rparr>) = error_chan s"
  "error_chan (s\<lparr>subscribers := x15\<rparr>) = error_chan s"
  "error_chan (s\<lparr>loads := x16\<rparr>) = error_chan s"
  "error_chan (s\<lparr>saves := x17\<rparr>) = error_chan s"
  "error_chan (s\<lparr>notified := x18\<rparr>) = error_chan s"
  "error_chan (s\<lparr>error_bs := Some b\<rparr>) = b"
  by (simp_all add: error_chan_def cong: option.case_cong)

lemmas chan_update =
  loaded_chan_update
  loading_chan_update
  saving_chan_update
  saved_chan_update
  hasError_chan_update
  error_chan_update

lemma loaded_chan_step:
  "loaded_chan (value_push w s) = (case loaded_bs s of None \<Rightarrow> new_bs (w \<noteq> None) | Some b \<Rightarrow> b)"
  "loaded_chan (loaded_push vloaded s) = bs_next vloaded (loaded_chan s)"
  "loaded_chan (loading_push vloading s) = loaded_chan s"
  "loaded_chan (saving_push vsaving s) = loaded_chan s"
  "loaded_chan (saved_push vsaved s) = loaded_chan s"
  "loaded_chan (hasError_push vhasError s) = loaded_chan s"
  "loaded_chan (error_push verror s) = loaded_chan s"
  "loaded_chan (loaded_get s) = loaded_chan s"
  "loaded_chan (loading_get s) = loaded_chan s"
  "loaded_chan (saving_get s) = loaded_chan s"
  "loaded_chan (saved_get s) = loaded_chan s"
  "loaded_chan (hasError_get s) = loaded_chan s"
  "loaded_chan (error_get s) = loaded_chan s"
  "loaded_chan (value_attach obv s) = loaded_chan s"
  "loaded_chan (loaded_attach obloaded s) = bs_subscribe obloaded (loaded_chan s)"
  "loaded_chan (loading_attach obloading s) = loaded_chan s"
  "loaded_chan (saving_attach obsaving s) = loaded_chan s"
  "loaded_chan (saved_attach obsaved s) = loaded_chan s"
  "loaded_chan (hasError_attach obhasError s) = loaded_chan s"
  "loaded_chan (error_attach oberror s) = loaded_chan s"
  "loaded_chan (unsubscribe s) = loaded_chan s"
  "loaded_chan (subscribe_load f s) = loaded_chan s"
  "loaded_chan (detach h s) = loaded_chan s"
  "loaded_chan (subscribe_save p cb s) = loaded_chan s"
  "loaded_chan (call_saved cb val s) = loaded_chan s"
  "loaded_chan (merge_config config s) = loaded_chan s"
  by (simp_all add: value_push_def value_attach_def push_defs get_defs attach_defs chan_update unsubscribe_def
      subscribe_load_def detach_def subscribe_save_def call_saved_def merge_config_def Let_def
      bs_sel_simps loaded_chan_def split: option.splits)

lemma loading_chan_step:
  "loading_chan (value_push w s) = loading_chan s"
  "loading_chan (loaded_push vloaded s) = loading_chan s"
  "loading_chan (loading_push vloading s) = bs_next vloading (loading_chan s)"
  "loading_chan (saving_push vsaving s) = loading_chan s"
  "loading_chan (saved_push vsaved s) = loading_chan s"
  "loading_chan (hasError_push vhasError s) = loading_chan s"
  "loading_chan (error_push verror s) = loading_chan s"
  "loading_chan (loaded_get s) = loading_chan s"
  "loading_chan (loading_get s) = loading_chan s"
  "loading_chan (saving_get s) = loading_chan s"
  "loading_chan (saved_get s) = loading_chan s"
  "loading_chan (hasError_get s) = loading_chan s"
  "loading_chan (error_get s) = loading_chan s"
  "loading_chan (value_attach obv s) = loading_chan s"
  "loading_chan (loaded_attach obloaded s) = loading_chan s"
  "loading_chan (loading_attach obloading s) = bs_subscribe obloading (loading_chan s)"
  "loading_chan (saving_attach obsaving s) = loading_chan s"
  "loading_chan (saved_attach obsaved s) = loading_chan s"
  "loading_chan (hasError_attach obhasError s) = loading_chan s"
  "loading_chan (error_attach oberror s) = loading_chan s"
  "loading_chan (unsubscribe s) = loading_chan s"
  "loading_chan (subscribe_load f s) = loading_chan s"
  "loading_chan (detach h s) = loading_chan s"
  "loading_chan (subscribe_save p cb s) = loading_chan s"
  "loading_chan (call_saved cb val s) = loading_chan s"
  "loading_chan (merge_config config s) = loading_chan s"
  by (simp_all add: value_push_def value_attach_def push_defs get_defs attach_defs chan_update unsubscribe_def
      subscribe_load_def detach_def subscribe_save_def call_saved_def merge_config_def Let_def
      bs_sel_simps loading_chan_def split: option.splits)

lemma saving_chan_step:
  "saving_chan (value_push w s) = saving_chan s"
  "saving_chan (loaded_push vloaded s) = saving_chan s"
  "saving_chan (loading_push vloading s) = saving_chan s"
  "saving_chan (saving_push vsaving s) = bs_next vsaving (saving_chan s)"
  "saving_chan (saved_push vsaved s) = saving_chan s"
  "saving_chan (hasError_push vhasError s) = saving_chan s"
  "saving_chan (error_push verror s) = saving_chan s"
  "saving_chan (loaded_get s) = saving_chan s"
  "saving_chan (loading_get s) = saving_chan s"
  "saving_chan (saving_get s) = saving_chan s"
  "saving_chan (saved_get s) = saving_chan s"
  "saving_chan (hasError_get s) = saving_chan s"
  "saving_chan (error_get s) = saving_chan s"
  "saving_chan (value_attach obv s) = saving_chan s"
  "saving_chan (loaded_attach obloaded s) = saving_chan s"
  "saving_chan (loading_attach obloading s) = saving_chan s"
  "saving_chan (saving_attach obsaving s) = bs_subscribe obsaving (saving_chan s)"
  "saving_chan (saved_attach obsaved s) = saving_chan s"
  "saving_chan (hasError_attach obhasError s) = saving_chan s"
  "saving_chan (error_attach oberror s) = saving_chan s"
  "saving_chan (unsubscribe s) = saving_chan s"
  "saving_chan (subscribe_load f s) = saving_chan s"
  "saving_chan (detach h s) = saving_chan s"
  "saving_chan (subscribe_save p cb s) = saving_chan s"
  "saving_chan (call_saved cb val s) = saving_chan s"
  "saving_chan (merge_config config s) = saving_chan s"
  by (simp_all add: value_push_def value_attach_def push_defs get_defs attach_defs chan_update unsubscribe_def
      subscribe_load_def detach_def subscribe_save_def call_saved_def merge_config_def Let_def
      bs_sel_simps saving_chan_def split: option.splits)

lemma saved_chan_step:
  "saved_chan (value_push w s) = saved_chan s"
  "saved_chan (loaded_push vloaded s) = saved_chan s"
  "saved_chan (loading_push vloading s) = saved_chan s"
  "saved_chan (saving_push vsaving s) = saved_chan s"
  "saved_chan (saved_push vsaved s) = bs_next vsaved (saved_chan s)"
  "saved_chan (hasError_push vhasError s) = saved_chan s"
  "saved_chan (error_push verror s) = saved_chan s"
  "saved_chan (loaded_get s) = saved_chan s"
  "saved_chan (loading_get s) = saved_chan s"
  "saved_chan (saving_get s) = saved_chan s"
  "saved_chan (saved_get s) = saved_chan s"
  "saved_chan (hasError_get s) = saved_chan s"
  "saved_chan (error_get s) = saved_chan s"
  "saved_chan (value_attach obv s) = saved_chan s"
  "saved_chan (loaded_attach obloaded s) = saved_chan s"
  "saved_chan (loading_attach obloading s) = saved_chan s"
  "saved_chan (saving_attach obsaving s) = saved_chan s"
  "saved_chan (saved_attach obsaved s) = bs_subscribe obsaved (saved_chan s)"
  "saved_chan (hasError_attach obhasError s) = saved_chan s"
  "saved_chan (error_attach oberror s) = saved_chan s"
  "saved_chan (unsubscribe s) = saved_chan s"
  "saved_chan (subscribe_load f s) = saved_chan s"
  "saved_chan (detach h s) = saved_chan s"
  "saved_chan (subscribe_save p cb s) = saved_chan s"
  "saved_chan (call_saved cb val s) = saved_chan s"
  "saved_chan (merge_config config s) = saved_chan s"
  by (simp_all add: value_push_def value_attach_def push_defs get_defs attach_defs chan_update unsubscribe_def
      subscribe_load_def detach_def subscribe_save_def call_saved_def merge_config_def Let_def
      bs_sel_simps saved_chan_def split: option.splits)

lemma hasError_chan_step:
  "hasError_chan (value_push w s) = hasError_chan s"
  "hasError_chan (loaded_push vloaded s) = hasError_chan s"
  "hasError_chan (loading_push vloading s) = hasError_chan s"
  "hasError_chan (saving_push vsaving s) = hasError_chan s"
  "hasError_chan (saved_push vsaved s) = hasError_chan s"
  "hasError_chan (hasError_push vhasError s) = bs_next vhasError (hasError_chan s)"
  "hasError_chan (error_push verror s) = hasError_chan s"
  "hasError_chan (loaded_get s) = hasError_chan s"
  "hasError_chan (loading_get s) = hasError_chan s"
  "hasError_chan (saving_get s) = hasError_chan s"
  "hasError_chan (saved_get s) = hasError_chan s"
  "hasError_chan (hasError_get s) = hasError_chan s"
  "hasError_chan (error_get s) = hasError_chan s"
  "hasError_chan (value_attach obv s) = hasError_chan s"
  "hasError_chan (loaded_attach obloaded s) = hasError_chan s"
  "hasError_chan (loading_attach obloading s) = hasError_chan s"
  "hasError_chan (saving_attach obsaving s) = hasError_chan s"
  "hasError_chan (saved_attach obsaved s) = hasError_chan s"
  "hasError_chan (hasError_attach obhasError s) = bs_subscribe obhasError (hasError_chan s)"
  "hasError_chan (error_attach oberror s) = hasError_chan s"
  "hasError_chan (unsubscribe s) = hasError_chan s"
  "hasError_chan (subscribe_load f s) = hasError_chan s"
  "hasError_chan (detach h s) = hasError_chan s"
  "hasError_chan (subscribe_save p cb s) = hasError_chan s"
  "hasError_chan (call_saved cb val s) = hasError_chan s"
  "hasError_chan (merge_config config s) = hasError_chan s"
  by (simp_all add: value_push_def value_attach_def push_defs get_defs attach_defs chan_update unsubscribe_def
      subscribe_load_def detach_def subscribe_save_def call_saved_def merge_config_def Let_def
      bs_sel_simps hasError_chan_def split: option.splits)

lemma error_chan_step:
  "error_chan (value_push w s) = error_chan s"
  "error_chan (loaded_push vloaded s) = error_chan s"
  "error_chan (loading_push vloading s) = error_chan s"
  "error_chan (saving_push vsaving s) = error_chan s"
  "error_chan (saved_push vsaved s) = error_chan s"
  "error_chan (hasError_push vhasError s) = error_chan s"
  "error_chan (error_push verror s) = bs_next verror (error_chan s)"
  "error_chan (loaded_get s) = error_chan s"
  "error_chan (loading_get s) = error_chan s"
  "error_chan (saving_get s) = error_chan s"
  "error_chan (saved_get s) = error_chan s"
  "error_chan (hasError_get s) = error_chan s"
  "error_chan (error_get s) = error_chan s"
  "error_chan (value_attach obv s) = error_chan s"
  "error_chan (loaded_attach obloaded s) = error_chan s"
  "error_chan (loading_attach obloading s) = error_chan s"
  "error_chan (saving_attach obsaving s) = error_chan s"
  "error_chan (saved_attach obsaved s) = error_chan s"
  "error_chan (hasError_attach obhasError s) = error_chan s"
  "error_chan (error_attach oberror s) = bs_subscribe oberror (error_chan s)"
  "error_chan (unsubscribe s) = error_chan s"
  "error_chan (subscribe_load f s) = error_chan s"
  "error_chan (detach h s) = error_chan s"
  "error_chan (subscribe_save p cb s) = error_chan s"
  "error_chan (call_saved cb val s) = error_chan s"
  "error_chan (merge_config config s) = error_chan s"
  by (simp_all add: value_push_def value_attach_def push_defs get_defs attach_defs chan_update unsubscribe_def
      subscribe_load_def detach_def subscribe_save_def call_saved_def merge_config_def Let_def
      bs_sel_simps error_chan_def split: option.splits)

lemmas chan_step =
  loaded_chan_step
  loading_chan_step
  saving_chan_step
  saved_chan_step
  hasError_chan_step
  error_chan_step

section \<open>Observers reading the value\<close>

subsection \<open>What every read keeps\<close>

lemma tell_keeps:
  assumes "\<And>s. P s \<Longrightarrow> P (read s)" and "P s"
  shows "P (tell read obs v s)"
  using assms(2)
proof (induction obs arbitrary: s)
  case Nil
  then show ?case by simp
next
  case (Cons ob obs)
  then show ?case by (simp add: assms(1))
qed

lemma tell_frame:
  assumes "\<And>s. F (read s) = F s"
  shows "F (tell read obs v s) = F s"
  by (induction obs arbitrary: s) (simp_all add: assms)

lemma value_emit_keeps:
  assumes "\<And>s. P s \<Longrightarrow> P (read s)" and "P (value_push v s)"
  shows "P (value_emit read v s)"
  using assms by (simp add: value_emit_def tell_keeps [where P = P and read = read])

lemma loaded_emit_keeps:
  assumes "\<And>s. P s \<Longrightarrow> P (read s)" and "P (loaded_push v s)"
  shows "P (loaded_emit read v s)"
  using assms by (simp add: loaded_emit_def tell_keeps [where P = P and read = read])

lemma loading_emit_keeps:
  assumes "\<And>s. P s \<Longrightarrow> P (read s)" and "P (loading_push v s)"
  shows "P (loading_emit read v s)"
  using assms by (simp add: loading_emit_def tell_keeps [where P = P and read = read])

lemma saving_emit_keeps:
  assumes "\<And>s. P s \<Longrightarrow> P (read s)" and "P (saving_push v s)"
  shows "P (saving_emit read v s)"
  using assms by (simp add: saving_emit_def tell_keeps [where P = P and read = read])

lemma saved_emit_keeps:
  assumes "\<And>s. P s \<Longrightarrow> P (read s)" and "P (saved_push v s)"
  shows "P (saved_emit read v s)"
  using assms by (simp add: saved_emit_def tell_keeps [where P = P and read = read])

lemma hasError_emit_keeps:
  assumes "\<And>s. P s \<Longrightarrow> P (read s)" and "P (hasError_push v s)"
  shows "P (hasError_emit read v s)"
  using assms by (simp add: hasError_emit_def tell_keeps [where P = P and read = read])

lemma error_emit_keeps:
  assumes "\<And>s. P s \<Longrightarrow> P (read s)" and "P (error_push v s)"
  shows "P (error_emit read v s)"
  using assms by (simp add: error_emit_def tell_keeps [where P = P and read = read])

lemmas emit_keeps =
  value_emit_keeps
  loaded_emit_keeps
  loading_emit_keeps
  saving_emit_keeps
  saved_emit_keeps
  hasError_emit_keeps
  error_emit_keeps

lemma emit_frame:
  assumes "\<And>s. F (read s) = F s"
  shows "F (value_emit read vvalue s) = F (value_push vvalue s)"
    and "F (loaded_emit read vloaded s) = F (loaded_push vloaded s)"
    and "F (loading_emit read vloading s) = F (loading_push vloading s)"
    and "F (saving_emit read vsaving s) = F (saving_push vsaving s)"
    and "F (saved_emit read vsaved s) = F (saved_push vsaved s)"
    and "F (hasError_emit read vhasError s) = F (hasError_push vhasError s)"
    and "F (error_emit read verror s) = F (error_push verror s)"
  by (simp_all add: emit_defs tell_frame [where F = F and read = read] assms)

lemma refresh_with_construct:
  assumes "\<And>s. construct (read s) = construct s"
  shows "construct (refresh_with read s) = construct s"
  by (simp add: refresh_with_def Let_def step_fields emit_frame [where F = construct and read = read]
      assms split: option.splits)

lemma value_get_with_construct:
  assumes "\<And>s. construct (read s) = construct s"
  shows "construct (value_get_with read s) = construct s"
  by (simp add: value_get_with_def step_fields refresh_with_construct [OF assms]
      split: option.splits)

lemma observer_read_construct: "construct (observer_read d s) = construct s"
  by (induction d arbitrary: s) (simp_all add: value_get_with_construct)

lemma refresh_with_keeps:
  assumes r: "robust P" and k: "\<And>s. P s \<Longrightarrow> P (read s)"
    and c: "\<And>s. construct (read s) = construct s" and s: "P s"
  shows "P (refresh_with read s)"
proof (cases "construct s")
  case None
  with s show ?thesis by (simp add: refresh_with_def)
next
  case (Some f)
  let ?s1 = "loading_emit read True s"
  let ?s2 = "loaded_emit read False ?s1"
  let ?s3 = "hasError_emit read False ?s2"
  let ?s4 = "error_emit read None ?s3"
  have p: "\<And>s. P s \<Longrightarrow> P (loading_push True s)" "\<And>s. P s \<Longrightarrow> P (loaded_push False s)"
    "\<And>s. P s \<Longrightarrow> P (hasError_push False s)" "\<And>s. P s \<Longrightarrow> P (error_push None s)"
    "\<And>s f. P s \<Longrightarrow> construct s = Some f \<Longrightarrow> P (subscribe_load f (unsubscribe s))"
    using r by (simp_all add: robust_def)
  have 1: "P ?s1" by (rule loading_emit_keeps [where P = P], erule k, rule p(1) [OF s])
  have 2: "P ?s2" by (rule loaded_emit_keeps [where P = P], erule k, rule p(2) [OF 1])
  have 3: "P ?s3" by (rule hasError_emit_keeps [where P = P], erule k, rule p(3) [OF 2])
  have 4: "P ?s4" by (rule error_emit_keeps [where P = P], erule k, rule p(4) [OF 3])
  have "construct ?s4 = Some f"
    using Some by (simp add: emit_frame [where F = construct and read = read] c step_fields)
  from p(5) [OF 4 this] Some show ?thesis by (simp add: refresh_with_def Let_def)
qed

lemma value_get_with_keeps:
  assumes r: "robust P" and k: "\<And>s. P s \<Longrightarrow> P (read s)"
    and c: "\<And>s. construct (read s) = construct s" and s: "P s"
  shows "P (value_get_with read s)"
proof -
  have g: "P (loaded_get s)" using r s by (simp add: robust_def)
  have "P (refresh_with read (loaded_get s))"
    by (rule refresh_with_keeps [where P = P, OF r _ c g], erule k)
  with g s show ?thesis
    by (simp add: value_get_with_def split: option.splits)
qed

lemma observer_read_keeps:
  assumes "robust P" and "P s"
  shows "P (observer_read d s)"
  using assms(2)
proof (induction d arbitrary: s)
  case 0
  then show ?case by simp
next
  case (Suc d)
  show ?case
    unfolding observer_read.simps
    by (rule value_get_with_keeps [where P = P, OF assms(1) _ observer_read_construct Suc.prems],
        erule Suc.IH)
qed

text \<open>So an emission keeps a robust property that the push keeps, and so do the loads
  and the reads of the value.\<close>

lemma value_emit_robust:
  assumes "robust P" and "P (value_push v s)"
  shows "P (value_emit (observer_read d) v s)"
  by (rule value_emit_keeps [where P = P, OF _ assms(2)], erule observer_read_keeps [where P = P, OF assms(1)])

lemma loaded_emit_robust:
  assumes "robust P" and "P (loaded_push v s)"
  shows "P (loaded_emit (observer_read d) v s)"
  by (rule loaded_emit_keeps [where P = P, OF _ assms(2)], erule observer_read_keeps [where P = P, OF assms(1)])

lemma loading_emit_robust:
  assumes "robust P" and "P (loading_push v s)"
  shows "P (loading_emit (observer_read d) v s)"
  by (rule loading_emit_keeps [where P = P, OF _ assms(2)], erule observer_read_keeps [where P = P, OF assms(1)])

lemma saving_emit_robust:
  assumes "robust P" and "P (saving_push v s)"
  shows "P (saving_emit (observer_read d) v s)"
  by (rule saving_emit_keeps [where P = P, OF _ assms(2)], erule observer_read_keeps [where P = P, OF assms(1)])

lemma saved_emit_robust:
  assumes "robust P" and "P (saved_push v s)"
  shows "P (saved_emit (observer_read d) v s)"
  by (rule saved_emit_keeps [where P = P, OF _ assms(2)], erule observer_read_keeps [where P = P, OF assms(1)])

lemma hasError_emit_robust:
  assumes "robust P" and "P (hasError_push v s)"
  shows "P (hasError_emit (observer_read d) v s)"
  by (rule hasError_emit_keeps [where P = P, OF _ assms(2)], erule observer_read_keeps [where P = P, OF assms(1)])

lemma error_emit_robust:
  assumes "robust P" and "P (error_push v s)"
  shows "P (error_emit (observer_read d) v s)"
  by (rule error_emit_keeps [where P = P, OF _ assms(2)], erule observer_read_keeps [where P = P, OF assms(1)])

lemmas emit_robust =
  value_emit_robust
  loaded_emit_robust
  loading_emit_robust
  saving_emit_robust
  saved_emit_robust
  hasError_emit_robust
  error_emit_robust

lemma refresh_robust:
  assumes "robust P" and "P s"
  shows "P (refresh d s)"
  unfolding refresh_def
  by (rule refresh_with_keeps [where P = P, OF assms(1) _ observer_read_construct assms(2)],
      erule observer_read_keeps [where P = P, OF assms(1)])

lemma value_get_robust:
  assumes "robust P" and "P s"
  shows "P (value_get d s)"
  unfolding value_get_def
  by (rule value_get_with_keeps [where P = P, OF assms(1) _ observer_read_construct assms(2)],
      erule observer_read_keeps [where P = P, OF assms(1)])


lemma robust_conj: "robust P \<Longrightarrow> robust Q \<Longrightarrow> robust (\<lambda>s. P s \<and> Q s)"
  by (simp add: robust_def)

subsection \<open>What no read touches\<close>

lemma read_frame:
  assumes "\<And>s. F (loaded_get s) = F s" and "\<And>s. F (loading_push True s) = F s"
    and "\<And>s. F (loaded_push False s) = F s" and "\<And>s. F (hasError_push False s) = F s"
    and "\<And>s. F (error_push None s) = F s" and "\<And>f s. F (subscribe_load f (unsubscribe s)) = F s"
  shows "F (observer_read d s) = F s"
proof -
  have "robust (\<lambda>t. F t = F s)" by (simp add: robust_def assms)
  from observer_read_keeps [where P = "\<lambda>t. F t = F s", OF this] show ?thesis by simp
qed

lemma read_fields:
  "item_id (observer_read d s) = item_id s"
  "genericError (observer_read d s) = genericError s"
  "construct (observer_read d s) = construct s"
  "persist (observer_read d s) = persist s"
  "saved (observer_read d s) = saved s"
  "errorHandler (observer_read d s) = errorHandler s"
  "instance_bs (observer_read d s) = instance_bs s"
  "saving_bs (observer_read d s) = saving_bs s"
  "saved_bs (observer_read d s) = saved_bs s"
  "saves (observer_read d s) = saves s"
  "notified (observer_read d s) = notified s"
  "isStopped (loaded_chan (observer_read d s)) = isStopped (loaded_chan s)"
  "observers (loaded_chan (observer_read d s)) = observers (loaded_chan s)"
  "isStopped (loading_chan (observer_read d s)) = isStopped (loading_chan s)"
  "observers (loading_chan (observer_read d s)) = observers (loading_chan s)"
  "isStopped (saving_chan (observer_read d s)) = isStopped (saving_chan s)"
  "observers (saving_chan (observer_read d s)) = observers (saving_chan s)"
  "isStopped (saved_chan (observer_read d s)) = isStopped (saved_chan s)"
  "observers (saved_chan (observer_read d s)) = observers (saved_chan s)"
  "isStopped (hasError_chan (observer_read d s)) = isStopped (hasError_chan s)"
  "observers (hasError_chan (observer_read d s)) = observers (hasError_chan s)"
  "isStopped (error_chan (observer_read d s)) = isStopped (error_chan s)"
  "observers (error_chan (observer_read d s)) = observers (error_chan s)"
  "saving_chan (observer_read d s) = saving_chan s"
  "saved_chan (observer_read d s) = saved_chan s"
  by (rule read_frame; simp add: step_fields chan_step bs_sel_simps)+

lemma emit_fields:
  "item_id (value_emit (observer_read d) w s) = item_id s"
  "genericError (value_emit (observer_read d) w s) = genericError s"
  "construct (value_emit (observer_read d) w s) = construct s"
  "persist (value_emit (observer_read d) w s) = persist s"
  "saved (value_emit (observer_read d) w s) = saved s"
  "errorHandler (value_emit (observer_read d) w s) = errorHandler s"
  "instance_bs (value_emit (observer_read d) w s) = bs_next w (instance_bs s)"
  "saving_bs (value_emit (observer_read d) w s) = saving_bs s"
  "saved_bs (value_emit (observer_read d) w s) = saved_bs s"
  "saves (value_emit (observer_read d) w s) = saves s"
  "notified (value_emit (observer_read d) w s) = notified s"
  "item_id (loaded_emit (observer_read d) vloaded s) = item_id s"
  "genericError (loaded_emit (observer_read d) vloaded s) = genericError s"
  "construct (loaded_emit (observer_read d) vloaded s) = construct s"
  "persist (loaded_emit (observer_read d) vloaded s) = persist s"
  "saved (loaded_emit (observer_read d) vloaded s) = saved s"
  "errorHandler (loaded_emit (observer_read d) vloaded s) = errorHandler s"
  "instance_bs (loaded_emit (observer_read d) vloaded s) = instance_bs s"
  "saving_bs (loaded_emit (observer_read d) vloaded s) = saving_bs s"
  "saved_bs (loaded_emit (observer_read d) vloaded s) = saved_bs s"
  "saves (loaded_emit (observer_read d) vloaded s) = saves s"
  "notified (loaded_emit (observer_read d) vloaded s) = notified s"
  "item_id (loading_emit (observer_read d) vloading s) = item_id s"
  "genericError (loading_emit (observer_read d) vloading s) = genericError s"
  "construct (loading_emit (observer_read d) vloading s) = construct s"
  "persist (loading_emit (observer_read d) vloading s) = persist s"
  "saved (loading_emit (observer_read d) vloading s) = saved s"
  "errorHandler (loading_emit (observer_read d) vloading s) = errorHandler s"
  "instance_bs (loading_emit (observer_read d) vloading s) = instance_bs s"
  "saving_bs (loading_emit (observer_read d) vloading s) = saving_bs s"
  "saved_bs (loading_emit (observer_read d) vloading s) = saved_bs s"
  "saves (loading_emit (observer_read d) vloading s) = saves s"
  "notified (loading_emit (observer_read d) vloading s) = notified s"
  "item_id (saving_emit (observer_read d) vsaving s) = item_id s"
  "genericError (saving_emit (observer_read d) vsaving s) = genericError s"
  "construct (saving_emit (observer_read d) vsaving s) = construct s"
  "persist (saving_emit (observer_read d) vsaving s) = persist s"
  "saved (saving_emit (observer_read d) vsaving s) = saved s"
  "errorHandler (saving_emit (observer_read d) vsaving s) = errorHandler s"
  "instance_bs (saving_emit (observer_read d) vsaving s) = instance_bs s"
  "saved_bs (saving_emit (observer_read d) vsaving s) = saved_bs s"
  "saves (saving_emit (observer_read d) vsaving s) = saves s"
  "notified (saving_emit (observer_read d) vsaving s) = notified s"
  "item_id (saved_emit (observer_read d) vsaved s) = item_id s"
  "genericError (saved_emit (observer_read d) vsaved s) = genericError s"
  "construct (saved_emit (observer_read d) vsaved s) = construct s"
  "persist (saved_emit (observer_read d) vsaved s) = persist s"
  "saved (saved_emit (observer_read d) vsaved s) = saved s"
  "errorHandler (saved_emit (observer_read d) vsaved s) = errorHandler s"
  "instance_bs (saved_emit (observer_read d) vsaved s) = instance_bs s"
  "saving_bs (saved_emit (observer_read d) vsaved s) = saving_bs s"
  "saves (saved_emit (observer_read d) vsaved s) = saves s"
  "notified (saved_emit (observer_read d) vsaved s) = notified s"
  "item_id (hasError_emit (observer_read d) vhasError s) = item_id s"
  "genericError (hasError_emit (observer_read d) vhasError s) = genericError s"
  "construct (hasError_emit (observer_read d) vhasError s) = construct s"
  "persist (hasError_emit (observer_read d) vhasError s) = persist s"
  "saved (hasError_emit (observer_read d) vhasError s) = saved s"
  "errorHandler (hasError_emit (observer_read d) vhasError s) = errorHandler s"
  "instance_bs (hasError_emit (observer_read d) vhasError s) = instance_bs s"
  "saving_bs (hasError_emit (observer_read d) vhasError s) = saving_bs s"
  "saved_bs (hasError_emit (observer_read d) vhasError s) = saved_bs s"
  "saves (hasError_emit (observer_read d) vhasError s) = saves s"
  "notified (hasError_emit (observer_read d) vhasError s) = notified s"
  "item_id (error_emit (observer_read d) verror s) = item_id s"
  "genericError (error_emit (observer_read d) verror s) = genericError s"
  "construct (error_emit (observer_read d) verror s) = construct s"
  "persist (error_emit (observer_read d) verror s) = persist s"
  "saved (error_emit (observer_read d) verror s) = saved s"
  "errorHandler (error_emit (observer_read d) verror s) = errorHandler s"
  "instance_bs (error_emit (observer_read d) verror s) = instance_bs s"
  "saving_bs (error_emit (observer_read d) verror s) = saving_bs s"
  "saved_bs (error_emit (observer_read d) verror s) = saved_bs s"
  "saves (error_emit (observer_read d) verror s) = saves s"
  "notified (error_emit (observer_read d) verror s) = notified s"
  by (simp_all add: emit_frame [where read = "observer_read d" and F = item_id]
      emit_frame [where read = "observer_read d" and F = genericError]
      emit_frame [where read = "observer_read d" and F = construct]
      emit_frame [where read = "observer_read d" and F = persist]
      emit_frame [where read = "observer_read d" and F = saved]
      emit_frame [where read = "observer_read d" and F = errorHandler]
      emit_frame [where read = "observer_read d" and F = instance_bs]
      emit_frame [where read = "observer_read d" and F = saving_bs]
      emit_frame [where read = "observer_read d" and F = saved_bs]
      emit_frame [where read = "observer_read d" and F = saves]
      emit_frame [where read = "observer_read d" and F = notified]
      read_fields step_fields value_push_def)

section \<open>Properties kept by every call\<close>




































section \<open>Calls after finish\<close>



lemma quiet_stopped:
  "silenced (Some b) (loaded_bs s) \<Longrightarrow> isStopped (loaded_chan s)"
  "silenced (Some b) (loading_bs s) \<Longrightarrow> isStopped (loading_chan s)"
  by (auto simp: silenced_def chan_defs split: option.splits)





subsection \<open>Evaluating concrete cells\<close>

lemmas run_defs =
  new_RxCacheItem_def fresh_item_def configure_def merge_config_def refresh_def refresh_with_def
  value_get_def value_get_with_def update_def save_def reload_def reset_def finish_def
  runErrorHandler_def generateErrorMessage_def load_item_def save_ack_def on_error_def
  value_observe_def loaded_observe_def loading_observe_def saving_observe_def saved_observe_def
  hasError_observe_def error_observe_def value_attach_def attach_defs
  unsubscribe_def subscribe_load_def detach_def subscribe_save_def call_saved_def
  emit_defs value_push_def push_defs get_defs chan_defs obs_defs
  next_if_def direct_next_def complete_opt_def
  new_bs_def bs_next_def bs_complete_def bs_subscribe_def js_defs
  demo_config_def blank_config_def demo_global_def on_value_def on_message_def on_true_def

lemma demo_cell:
  "new_RxCacheItem demo_config =
     \<lparr>item_id = ''cell'', genericError = Some ''boom'', construct = Some 1,
      persist = Some 1, saved = None, errorHandler = None, subscription = None,
      instance_bs = \<lparr>bs_value = None, isStopped = False, emitted = [], observers = []\<rparr>,
      loaded_bs = None, loading_bs = None, saving_bs = None, saved_bs = None,
      hasError_bs = None, error_bs = None, next_handle = 0, subscribers = Map.empty,
      loads = [], saves = [], notified = []\<rparr>"
  by (simp add: run_defs)

lemma blank_cell:
  "new_RxCacheItem blank_config =
     \<lparr>item_id = ''cell'', genericError = None, construct = None,
      persist = None, saved = None, errorHandler = None, subscription = None,
      instance_bs = \<lparr>bs_value = None, isStopped = False, emitted = [], observers = []\<rparr>,
      loaded_bs = None, loading_bs = None, saving_bs = None, saved_bs = None,
      hasError_bs = None, error_bs = None, next_handle = 0, subscribers = Map.empty,
      loads = [], saves = [], notified = []\<rparr>"
  by (simp add: run_defs)

section \<open>The claims about finish\<close>

text \<open>
  C3: \<^verbatim>\<open>finish()\<close> completes the value channel and every materialised status channel,
  the saving and saved channels among them. Evaluated on a cell whose \<^verbatim>\<open>save()\<close> has
  materialised the saving, saved, hasError and error channels: \<^verbatim>\<open>finish()\<close> completes
  the value and hasError channels and leaves the saving and saved channels open.
\<close>

theorem finish_leaves_save_channels_open:
  "map_option isStopped (saving_bs (finish (save 1 None (new_RxCacheItem demo_config)))) = Some False \<and>
   map_option isStopped (saved_bs (finish (save 1 None (new_RxCacheItem demo_config)))) = Some False \<and>
   isStopped (instance_bs (finish (save 1 None (new_RxCacheItem demo_config)))) \<and>
   map_option isStopped (hasError_bs (finish (save 1 None (new_RxCacheItem demo_config)))) = Some True"
  unfolding demo_cell by (simp add: run_defs Let_def)




section \<open>What the calls leave as it is\<close>

lemma next_if_frame:
  assumes "\<And>x. F (emit x) = F x"
  shows "F (next_if field emit s) = F s"
  by (simp add: next_if_def assms split: option.splits)

lemma refresh_frame:
  assumes "\<And>s. F (loaded_get s) = F s" and "\<And>s. F (loading_push True s) = F s"
    and "\<And>s. F (loaded_push False s) = F s" and "\<And>s. F (hasError_push False s) = F s"
    and "\<And>s. F (error_push None s) = F s" and "\<And>f s. F (subscribe_load f (unsubscribe s)) = F s"
  shows "F (refresh d s) = F s" and "F (value_get d s) = F s"
proof -
  have r: "robust (\<lambda>t. F t = F s)" by (simp add: robust_def assms)
  from refresh_robust [where P = "\<lambda>t. F t = F s", OF r] show "F (refresh d s) = F s" by simp
  from value_get_robust [where P = "\<lambda>t. F t = F s", OF r] show "F (value_get d s) = F s" by simp
qed

lemma refresh_fields:
  "item_id (refresh d s) = item_id s"
  "genericError (refresh d s) = genericError s"
  "construct (refresh d s) = construct s"
  "persist (refresh d s) = persist s"
  "saved (refresh d s) = saved s"
  "errorHandler (refresh d s) = errorHandler s"
  "instance_bs (refresh d s) = instance_bs s"
  "saving_bs (refresh d s) = saving_bs s"
  "saved_bs (refresh d s) = saved_bs s"
  "saves (refresh d s) = saves s"
  "notified (refresh d s) = notified s"
  "isStopped (loaded_chan (refresh d s)) = isStopped (loaded_chan s)"
  "observers (loaded_chan (refresh d s)) = observers (loaded_chan s)"
  "isStopped (loading_chan (refresh d s)) = isStopped (loading_chan s)"
  "observers (loading_chan (refresh d s)) = observers (loading_chan s)"
  "isStopped (saving_chan (refresh d s)) = isStopped (saving_chan s)"
  "observers (saving_chan (refresh d s)) = observers (saving_chan s)"
  "isStopped (saved_chan (refresh d s)) = isStopped (saved_chan s)"
  "observers (saved_chan (refresh d s)) = observers (saved_chan s)"
  "isStopped (hasError_chan (refresh d s)) = isStopped (hasError_chan s)"
  "observers (hasError_chan (refresh d s)) = observers (hasError_chan s)"
  "isStopped (error_chan (refresh d s)) = isStopped (error_chan s)"
  "observers (error_chan (refresh d s)) = observers (error_chan s)"
  "saving_chan (refresh d s) = saving_chan s"
  "saved_chan (refresh d s) = saved_chan s"
  by (rule refresh_frame(1); simp add: step_fields chan_step bs_sel_simps)+

lemma value_get_fields:
  "item_id (value_get d s) = item_id s"
  "genericError (value_get d s) = genericError s"
  "construct (value_get d s) = construct s"
  "persist (value_get d s) = persist s"
  "saved (value_get d s) = saved s"
  "errorHandler (value_get d s) = errorHandler s"
  "instance_bs (value_get d s) = instance_bs s"
  "saving_bs (value_get d s) = saving_bs s"
  "saved_bs (value_get d s) = saved_bs s"
  "saves (value_get d s) = saves s"
  "notified (value_get d s) = notified s"
  "isStopped (loaded_chan (value_get d s)) = isStopped (loaded_chan s)"
  "observers (loaded_chan (value_get d s)) = observers (loaded_chan s)"
  "isStopped (loading_chan (value_get d s)) = isStopped (loading_chan s)"
  "observers (loading_chan (value_get d s)) = observers (loading_chan s)"
  "isStopped (saving_chan (value_get d s)) = isStopped (saving_chan s)"
  "observers (saving_chan (value_get d s)) = observers (saving_chan s)"
  "isStopped (saved_chan (value_get d s)) = isStopped (saved_chan s)"
  "observers (saved_chan (value_get d s)) = observers (saved_chan s)"
  "isStopped (hasError_chan (value_get d s)) = isStopped (hasError_chan s)"
  "observers (hasError_chan (value_get d s)) = observers (hasError_chan s)"
  "isStopped (error_chan (value_get d s)) = isStopped (error_chan s)"
  "observers (error_chan (value_get d s)) = observers (error_chan s)"
  "saving_chan (value_get d s) = saving_chan s"
  "saved_chan (value_get d s) = saved_chan s"
  by (rule refresh_frame(2); simp add: step_fields chan_step bs_sel_simps)+

lemma next_if_fields:
  "item_id (next_if fieldB (loaded_emit (observer_read d) vloaded) s) = item_id s"
  "genericError (next_if fieldB (loaded_emit (observer_read d) vloaded) s) = genericError s"
  "construct (next_if fieldB (loaded_emit (observer_read d) vloaded) s) = construct s"
  "persist (next_if fieldB (loaded_emit (observer_read d) vloaded) s) = persist s"
  "saved (next_if fieldB (loaded_emit (observer_read d) vloaded) s) = saved s"
  "errorHandler (next_if fieldB (loaded_emit (observer_read d) vloaded) s) = errorHandler s"
  "instance_bs (next_if fieldB (loaded_emit (observer_read d) vloaded) s) = instance_bs s"
  "saving_bs (next_if fieldB (loaded_emit (observer_read d) vloaded) s) = saving_bs s"
  "saved_bs (next_if fieldB (loaded_emit (observer_read d) vloaded) s) = saved_bs s"
  "saves (next_if fieldB (loaded_emit (observer_read d) vloaded) s) = saves s"
  "notified (next_if fieldB (loaded_emit (observer_read d) vloaded) s) = notified s"
  "item_id (next_if fieldB (loading_emit (observer_read d) vloading) s) = item_id s"
  "genericError (next_if fieldB (loading_emit (observer_read d) vloading) s) = genericError s"
  "construct (next_if fieldB (loading_emit (observer_read d) vloading) s) = construct s"
  "persist (next_if fieldB (loading_emit (observer_read d) vloading) s) = persist s"
  "saved (next_if fieldB (loading_emit (observer_read d) vloading) s) = saved s"
  "errorHandler (next_if fieldB (loading_emit (observer_read d) vloading) s) = errorHandler s"
  "instance_bs (next_if fieldB (loading_emit (observer_read d) vloading) s) = instance_bs s"
  "saving_bs (next_if fieldB (loading_emit (observer_read d) vloading) s) = saving_bs s"
  "saved_bs (next_if fieldB (loading_emit (observer_read d) vloading) s) = saved_bs s"
  "saves (next_if fieldB (loading_emit (observer_read d) vloading) s) = saves s"
  "notified (next_if fieldB (loading_emit (observer_read d) vloading) s) = notified s"
  "item_id (next_if fieldB (saving_emit (observer_read d) vsaving) s) = item_id s"
  "genericError (next_if fieldB (saving_emit (observer_read d) vsaving) s) = genericError s"
  "construct (next_if fieldB (saving_emit (observer_read d) vsaving) s) = construct s"
  "persist (next_if fieldB (saving_emit (observer_read d) vsaving) s) = persist s"
  "saved (next_if fieldB (saving_emit (observer_read d) vsaving) s) = saved s"
  "errorHandler (next_if fieldB (saving_emit (observer_read d) vsaving) s) = errorHandler s"
  "instance_bs (next_if fieldB (saving_emit (observer_read d) vsaving) s) = instance_bs s"
  "saved_bs (next_if fieldB (saving_emit (observer_read d) vsaving) s) = saved_bs s"
  "saves (next_if fieldB (saving_emit (observer_read d) vsaving) s) = saves s"
  "notified (next_if fieldB (saving_emit (observer_read d) vsaving) s) = notified s"
  "item_id (next_if fieldB (saved_emit (observer_read d) vsaved) s) = item_id s"
  "genericError (next_if fieldB (saved_emit (observer_read d) vsaved) s) = genericError s"
  "construct (next_if fieldB (saved_emit (observer_read d) vsaved) s) = construct s"
  "persist (next_if fieldB (saved_emit (observer_read d) vsaved) s) = persist s"
  "saved (next_if fieldB (saved_emit (observer_read d) vsaved) s) = saved s"
  "errorHandler (next_if fieldB (saved_emit (observer_read d) vsaved) s) = errorHandler s"
  "instance_bs (next_if fieldB (saved_emit (observer_read d) vsaved) s) = instance_bs s"
  "saving_bs (next_if fieldB (saved_emit (observer_read d) vsaved) s) = saving_bs s"
  "saves (next_if fieldB (saved_emit (observer_read d) vsaved) s) = saves s"
  "notified (next_if fieldB (saved_emit (observer_read d) vsaved) s) = notified s"
  "item_id (next_if fieldB (hasError_emit (observer_read d) vhasError) s) = item_id s"
  "genericError (next_if fieldB (hasError_emit (observer_read d) vhasError) s) = genericError s"
  "construct (next_if fieldB (hasError_emit (observer_read d) vhasError) s) = construct s"
  "persist (next_if fieldB (hasError_emit (observer_read d) vhasError) s) = persist s"
  "saved (next_if fieldB (hasError_emit (observer_read d) vhasError) s) = saved s"
  "errorHandler (next_if fieldB (hasError_emit (observer_read d) vhasError) s) = errorHandler s"
  "instance_bs (next_if fieldB (hasError_emit (observer_read d) vhasError) s) = instance_bs s"
  "saving_bs (next_if fieldB (hasError_emit (observer_read d) vhasError) s) = saving_bs s"
  "saved_bs (next_if fieldB (hasError_emit (observer_read d) vhasError) s) = saved_bs s"
  "saves (next_if fieldB (hasError_emit (observer_read d) vhasError) s) = saves s"
  "notified (next_if fieldB (hasError_emit (observer_read d) vhasError) s) = notified s"
  "item_id (next_if fieldE (error_emit (observer_read d) verror) s) = item_id s"
  "genericError (next_if fieldE (error_emit (observer_read d) verror) s) = genericError s"
  "construct (next_if fieldE (error_emit (observer_read d) verror) s) = construct s"
  "persist (next_if fieldE (error_emit (observer_read d) verror) s) = persist s"
  "saved (next_if fieldE (error_emit (observer_read d) verror) s) = saved s"
  "errorHandler (next_if fieldE (error_emit (observer_read d) verror) s) = errorHandler s"
  "instance_bs (next_if fieldE (error_emit (observer_read d) verror) s) = instance_bs s"
  "saving_bs (next_if fieldE (error_emit (observer_read d) verror) s) = saving_bs s"
  "saved_bs (next_if fieldE (error_emit (observer_read d) verror) s) = saved_bs s"
  "saves (next_if fieldE (error_emit (observer_read d) verror) s) = saves s"
  "notified (next_if fieldE (error_emit (observer_read d) verror) s) = notified s"
  by (simp_all add: next_if_def emit_fields split: option.splits)
section \<open>Configure and reload\<close>

text \<open>
  C9 (as claimed): \<^verbatim>\<open>configure\<close> overwrites a field exactly when the configuration
  supplies it, an empty string included. The merge is written with \<^verbatim>\<open>||\<close>: on a
  cell whose generic error text is "boom", a configuration that supplies the empty
  string as generic error text leaves "boom" in place.
\<close>

theorem configure_empty_string_counterexample:
  "c_genericError (blank_config\<lparr>c_genericError := Some ''''\<rparr>) = Some '''' \<and>
   genericError (new_RxCacheItem demo_config) = Some ''boom'' \<and>
   genericError (configure 1 (blank_config\<lparr>c_genericError := Some ''''\<rparr>)
                   (new_RxCacheItem demo_config))
     = Some ''boom''"
  unfolding demo_cell by (simp add: run_defs Let_def)

text \<open>
  C9 (amended): \<^verbatim>\<open>configure(cfg)\<close> overwrites the source, the sink, the saved callback
  and the error handler exactly when \<open>cfg\<close> supplies them, and the generic error text
  exactly when \<open>cfg\<close> supplies a non-empty string; every other field keeps its
  previous value (an absent or empty generic error text preserves the previous one).
\<close>

theorem configure_merge:
  "genericError (configure d cfg s) =
     (if truthy (c_genericError cfg) then c_genericError cfg else genericError s) \<and>
   construct (configure d cfg s) = (case c_construct cfg of Some f \<Rightarrow> Some f | None \<Rightarrow> construct s) \<and>
   persist (configure d cfg s) = (case c_persist cfg of Some p \<Rightarrow> Some p | None \<Rightarrow> persist s) \<and>
   saved (configure d cfg s) = (case c_saved cfg of Some c \<Rightarrow> Some c | None \<Rightarrow> saved s) \<and>
   errorHandler (configure d cfg s) =
     (case c_errorHandler cfg of Some eh \<Rightarrow> Some eh | None \<Rightarrow> errorHandler s)"
  by (simp add: configure_def Let_def refresh_fields step_fields next_if_fields emit_fields
      merge_config_def js_or_def fn_or_def split: option.splits)

section \<open>Cells whose status observers do not read the value\<close>

lemma tell_watchers: "list_all watcher obs \<Longrightarrow> tell read obs v s = s"
proof (induction obs arbitrary: s)
  case Nil
  then show ?case by simp
next
  case (Cons ob obs)
  then show ?case by (cases ob) simp_all
qed

lemma loaded_default:
  "observers (case loaded_bs s of None \<Rightarrow> new_bs x | Some b \<Rightarrow> b) = observers (loaded_chan s)"
  "isStopped (case loaded_bs s of None \<Rightarrow> new_bs x | Some b \<Rightarrow> b) = isStopped (loaded_chan s)"
  by (simp_all add: loaded_chan_def bs_sel_simps split: option.splits)

lemma observers_step:
  "observers (loaded_chan (value_push w s)) = observers (loaded_chan s)"
  "observers (loaded_chan (loaded_push vloaded s)) = observers (loaded_chan s)"
  "observers (loaded_chan (loading_push vloading s)) = observers (loaded_chan s)"
  "observers (loaded_chan (saving_push vsaving s)) = observers (loaded_chan s)"
  "observers (loaded_chan (saved_push vsaved s)) = observers (loaded_chan s)"
  "observers (loaded_chan (hasError_push vhasError s)) = observers (loaded_chan s)"
  "observers (loaded_chan (error_push verror s)) = observers (loaded_chan s)"
  "observers (loaded_chan (loaded_get s)) = observers (loaded_chan s)"
  "observers (loaded_chan (loading_get s)) = observers (loaded_chan s)"
  "observers (loaded_chan (saving_get s)) = observers (loaded_chan s)"
  "observers (loaded_chan (saved_get s)) = observers (loaded_chan s)"
  "observers (loaded_chan (hasError_get s)) = observers (loaded_chan s)"
  "observers (loaded_chan (error_get s)) = observers (loaded_chan s)"
  "observers (loaded_chan (unsubscribe s)) = observers (loaded_chan s)"
  "observers (loaded_chan (subscribe_load f s)) = observers (loaded_chan s)"
  "observers (loaded_chan (detach h s)) = observers (loaded_chan s)"
  "observers (loaded_chan (subscribe_save p cb s)) = observers (loaded_chan s)"
  "observers (loaded_chan (call_saved cb val s)) = observers (loaded_chan s)"
  "observers (loaded_chan (merge_config config s)) = observers (loaded_chan s)"
  "observers (loaded_chan (s\<lparr>construct := x\<rparr>)) = observers (loaded_chan s)"
  "observers (loading_chan (value_push w s)) = observers (loading_chan s)"
  "observers (loading_chan (loaded_push vloaded s)) = observers (loading_chan s)"
  "observers (loading_chan (loading_push vloading s)) = observers (loading_chan s)"
  "observers (loading_chan (saving_push vsaving s)) = observers (loading_chan s)"
  "observers (loading_chan (saved_push vsaved s)) = observers (loading_chan s)"
  "observers (loading_chan (hasError_push vhasError s)) = observers (loading_chan s)"
  "observers (loading_chan (error_push verror s)) = observers (loading_chan s)"
  "observers (loading_chan (loaded_get s)) = observers (loading_chan s)"
  "observers (loading_chan (loading_get s)) = observers (loading_chan s)"
  "observers (loading_chan (saving_get s)) = observers (loading_chan s)"
  "observers (loading_chan (saved_get s)) = observers (loading_chan s)"
  "observers (loading_chan (hasError_get s)) = observers (loading_chan s)"
  "observers (loading_chan (error_get s)) = observers (loading_chan s)"
  "observers (loading_chan (unsubscribe s)) = observers (loading_chan s)"
  "observers (loading_chan (subscribe_load f s)) = observers (loading_chan s)"
  "observers (loading_chan (detach h s)) = observers (loading_chan s)"
  "observers (loading_chan (subscribe_save p cb s)) = observers (loading_chan s)"
  "observers (loading_chan (call_saved cb val s)) = observers (loading_chan s)"
  "observers (loading_chan (merge_config config s)) = observers (loading_chan s)"
  "observers (loading_chan (s\<lparr>construct := x\<rparr>)) = observers (loading_chan s)"
  "observers (saving_chan (value_push w s)) = observers (saving_chan s)"
  "observers (saving_chan (loaded_push vloaded s)) = observers (saving_chan s)"
  "observers (saving_chan (loading_push vloading s)) = observers (saving_chan s)"
  "observers (saving_chan (saving_push vsaving s)) = observers (saving_chan s)"
  "observers (saving_chan (saved_push vsaved s)) = observers (saving_chan s)"
  "observers (saving_chan (hasError_push vhasError s)) = observers (saving_chan s)"
  "observers (saving_chan (error_push verror s)) = observers (saving_chan s)"
  "observers (saving_chan (loaded_get s)) = observers (saving_chan s)"
  "observers (saving_chan (loading_get s)) = observers (saving_chan s)"
  "observers (saving_chan (saving_get s)) = observers (saving_chan s)"
  "observers (saving_chan (saved_get s)) = observers (saving_chan s)"
  "observers (saving_chan (hasError_get s)) = observers (saving_chan s)"
  "observers (saving_chan (error_get s)) = observers (saving_chan s)"
  "observers (saving_chan (unsubscribe s)) = observers (saving_chan s)"
  "observers (saving_chan (subscribe_load f s)) = observers (saving_chan s)"
  "observers (saving_chan (detach h s)) = observers (saving_chan s)"
  "observers (saving_chan (subscribe_save p cb s)) = observers (saving_chan s)"
  "observers (saving_chan (call_saved cb val s)) = observers (saving_chan s)"
  "observers (saving_chan (merge_config config s)) = observers (saving_chan s)"
  "observers (saving_chan (s\<lparr>construct := x\<rparr>)) = observers (saving_chan s)"
  "observers (saved_chan (value_push w s)) = observers (saved_chan s)"
  "observers (saved_chan (loaded_push vloaded s)) = observers (saved_chan s)"
  "observers (saved_chan (loading_push vloading s)) = observers (saved_chan s)"
  "observers (saved_chan (saving_push vsaving s)) = observers (saved_chan s)"
  "observers (saved_chan (saved_push vsaved s)) = observers (saved_chan s)"
  "observers (saved_chan (hasError_push vhasError s)) = observers (saved_chan s)"
  "observers (saved_chan (error_push verror s)) = observers (saved_chan s)"
  "observers (saved_chan (loaded_get s)) = observers (saved_chan s)"
  "observers (saved_chan (loading_get s)) = observers (saved_chan s)"
  "observers (saved_chan (saving_get s)) = observers (saved_chan s)"
  "observers (saved_chan (saved_get s)) = observers (saved_chan s)"
  "observers (saved_chan (hasError_get s)) = observers (saved_chan s)"
  "observers (saved_chan (error_get s)) = observers (saved_chan s)"
  "observers (saved_chan (unsubscribe s)) = observers (saved_chan s)"
  "observers (saved_chan (subscribe_load f s)) = observers (saved_chan s)"
  "observers (saved_chan (detach h s)) = observers (saved_chan s)"
  "observers (saved_chan (subscribe_save p cb s)) = observers (saved_chan s)"
  "observers (saved_chan (call_saved cb val s)) = observers (saved_chan s)"
  "observers (saved_chan (merge_config config s)) = observers (saved_chan s)"
  "observers (saved_chan (s\<lparr>construct := x\<rparr>)) = observers (saved_chan s)"
  "observers (hasError_chan (value_push w s)) = observers (hasError_chan s)"
  "observers (hasError_chan (loaded_push vloaded s)) = observers (hasError_chan s)"
  "observers (hasError_chan (loading_push vloading s)) = observers (hasError_chan s)"
  "observers (hasError_chan (saving_push vsaving s)) = observers (hasError_chan s)"
  "observers (hasError_chan (saved_push vsaved s)) = observers (hasError_chan s)"
  "observers (hasError_chan (hasError_push vhasError s)) = observers (hasError_chan s)"
  "observers (hasError_chan (error_push verror s)) = observers (hasError_chan s)"
  "observers (hasError_chan (loaded_get s)) = observers (hasError_chan s)"
  "observers (hasError_chan (loading_get s)) = observers (hasError_chan s)"
  "observers (hasError_chan (saving_get s)) = observers (hasError_chan s)"
  "observers (hasError_chan (saved_get s)) = observers (hasError_chan s)"
  "observers (hasError_chan (hasError_get s)) = observers (hasError_chan s)"
  "observers (hasError_chan (error_get s)) = observers (hasError_chan s)"
  "observers (hasError_chan (unsubscribe s)) = observers (hasError_chan s)"
  "observers (hasError_chan (subscribe_load f s)) = observers (hasError_chan s)"
  "observers (hasError_chan (detach h s)) = observers (hasError_chan s)"
  "observers (hasError_chan (subscribe_save p cb s)) = observers (hasError_chan s)"
  "observers (hasError_chan (call_saved cb val s)) = observers (hasError_chan s)"
  "observers (hasError_chan (merge_config config s)) = observers (hasError_chan s)"
  "observers (hasError_chan (s\<lparr>construct := x\<rparr>)) = observers (hasError_chan s)"
  "observers (error_chan (value_push w s)) = observers (error_chan s)"
  "observers (error_chan (loaded_push vloaded s)) = observers (error_chan s)"
  "observers (error_chan (loading_push vloading s)) = observers (error_chan s)"
  "observers (error_chan (saving_push vsaving s)) = observers (error_chan s)"
  "observers (error_chan (saved_push vsaved s)) = observers (error_chan s)"
  "observers (error_chan (hasError_push vhasError s)) = observers (error_chan s)"
  "observers (error_chan (error_push verror s)) = observers (error_chan s)"
  "observers (error_chan (loaded_get s)) = observers (error_chan s)"
  "observers (error_chan (loading_get s)) = observers (error_chan s)"
  "observers (error_chan (saving_get s)) = observers (error_chan s)"
  "observers (error_chan (saved_get s)) = observers (error_chan s)"
  "observers (error_chan (hasError_get s)) = observers (error_chan s)"
  "observers (error_chan (error_get s)) = observers (error_chan s)"
  "observers (error_chan (unsubscribe s)) = observers (error_chan s)"
  "observers (error_chan (subscribe_load f s)) = observers (error_chan s)"
  "observers (error_chan (detach h s)) = observers (error_chan s)"
  "observers (error_chan (subscribe_save p cb s)) = observers (error_chan s)"
  "observers (error_chan (call_saved cb val s)) = observers (error_chan s)"
  "observers (error_chan (merge_config config s)) = observers (error_chan s)"
  "observers (error_chan (s\<lparr>construct := x\<rparr>)) = observers (error_chan s)"
  by (simp_all add: chan_step chan_update bs_sel_simps loaded_default)

lemma unread_step:
  "unread_flags (value_push w s) = unread_flags s"
  "unread_error (value_push w s) = unread_error s"
  "unread (value_push w s) = unread s"
  "unread_flags (loaded_push vloaded s) = unread_flags s"
  "unread_error (loaded_push vloaded s) = unread_error s"
  "unread (loaded_push vloaded s) = unread s"
  "unread_flags (loading_push vloading s) = unread_flags s"
  "unread_error (loading_push vloading s) = unread_error s"
  "unread (loading_push vloading s) = unread s"
  "unread_flags (saving_push vsaving s) = unread_flags s"
  "unread_error (saving_push vsaving s) = unread_error s"
  "unread (saving_push vsaving s) = unread s"
  "unread_flags (saved_push vsaved s) = unread_flags s"
  "unread_error (saved_push vsaved s) = unread_error s"
  "unread (saved_push vsaved s) = unread s"
  "unread_flags (hasError_push vhasError s) = unread_flags s"
  "unread_error (hasError_push vhasError s) = unread_error s"
  "unread (hasError_push vhasError s) = unread s"
  "unread_flags (error_push verror s) = unread_flags s"
  "unread_error (error_push verror s) = unread_error s"
  "unread (error_push verror s) = unread s"
  "unread_flags (loaded_get s) = unread_flags s"
  "unread_error (loaded_get s) = unread_error s"
  "unread (loaded_get s) = unread s"
  "unread_flags (loading_get s) = unread_flags s"
  "unread_error (loading_get s) = unread_error s"
  "unread (loading_get s) = unread s"
  "unread_flags (saving_get s) = unread_flags s"
  "unread_error (saving_get s) = unread_error s"
  "unread (saving_get s) = unread s"
  "unread_flags (saved_get s) = unread_flags s"
  "unread_error (saved_get s) = unread_error s"
  "unread (saved_get s) = unread s"
  "unread_flags (hasError_get s) = unread_flags s"
  "unread_error (hasError_get s) = unread_error s"
  "unread (hasError_get s) = unread s"
  "unread_flags (error_get s) = unread_flags s"
  "unread_error (error_get s) = unread_error s"
  "unread (error_get s) = unread s"
  "unread_flags (unsubscribe s) = unread_flags s"
  "unread_error (unsubscribe s) = unread_error s"
  "unread (unsubscribe s) = unread s"
  "unread_flags (subscribe_load f s) = unread_flags s"
  "unread_error (subscribe_load f s) = unread_error s"
  "unread (subscribe_load f s) = unread s"
  "unread_flags (detach h s) = unread_flags s"
  "unread_error (detach h s) = unread_error s"
  "unread (detach h s) = unread s"
  "unread_flags (subscribe_save p cb s) = unread_flags s"
  "unread_error (subscribe_save p cb s) = unread_error s"
  "unread (subscribe_save p cb s) = unread s"
  "unread_flags (call_saved cb val s) = unread_flags s"
  "unread_error (call_saved cb val s) = unread_error s"
  "unread (call_saved cb val s) = unread s"
  "unread_flags (merge_config config s) = unread_flags s"
  "unread_error (merge_config config s) = unread_error s"
  "unread (merge_config config s) = unread s"
  "unread_flags (s\<lparr>construct := x\<rparr>) = unread_flags s"
  "unread_error (s\<lparr>construct := x\<rparr>) = unread_error s"
  "unread (s\<lparr>construct := x\<rparr>) = unread s"
  by (simp_all add: unread_def unread_flags_def unread_error_def observers_step)

lemma emit_unread_flags:
  assumes "unread_flags s"
  shows "loaded_emit read v s = loaded_push v s"
    and "loading_emit read v s = loading_push v s"
    and "saving_emit read v s = saving_push v s"
    and "saved_emit read v s = saved_push v s"
    and "hasError_emit read v s = hasError_push v s"
  using assms by (simp_all add: emit_defs unread_flags_def tell_watchers)

lemma emit_unread_error:
  assumes "unread_error s"
  shows "error_emit read v s = error_push v s"
  using assms by (simp add: error_emit_def unread_error_def tell_watchers)

lemma emit_unread:
  assumes "unread s"
  shows "loaded_emit read v s = loaded_push v s" and "loading_emit read v s = loading_push v s"
    and "saving_emit read v s = saving_push v s" and "saved_emit read v s = saved_push v s"
    and "hasError_emit read v s = hasError_push v s" and "error_emit read w s = error_push w s"
  using assms by (simp_all add: unread_def emit_unread_flags emit_unread_error)

lemma robust_unread: "robust unread_flags" "robust unread_error" "robust unread"
  by (simp_all add: robust_def unread_step)
lemma refresh_unread:
  assumes "unread s" and "construct s = Some f"
  shows "refresh d s =
           subscribe_load f (unsubscribe (error_push None (hasError_push False
             (loaded_push False (loading_push True s)))))"
  using assms by (simp add: refresh_def refresh_with_def Let_def emit_unread unread_step)

lemma reload_unread:
  assumes "unread s"
  shows "reload d f s =
           subscribe_load f ((unsubscribe (error_push None (hasError_push False
             (loading_push True (loaded_push False s)))))\<lparr>construct := Some f\<rparr>)"
  using assms by (simp add: reload_def Let_def emit_unread unread_step)

lemma reload_construct: "construct (reload d f s) = Some f"
  by (simp add: reload_def Let_def step_fields)

lemma robust_loads:
  "robust (\<lambda>t. construct t = Some f \<and> (\<exists>new. loads t = new @ older \<and> set (map snd new) \<subseteq> {f}))"
  by (auto simp: robust_def step_fields subscribe_load_def Let_def)

lemma refresh_loads:
  assumes "construct s = Some f"
  shows "\<exists>new. loads (refresh d s) = new @ loads s \<and> set (map snd new) = {f}"
proof -
  let ?P = "\<lambda>t. construct t = Some f \<and> (\<exists>new. loads t = new @ loads s \<and> set (map snd new) \<subseteq> {f})"
  let ?s1 = "loading_emit (observer_read d) True s"
  let ?s2 = "loaded_emit (observer_read d) False ?s1"
  let ?s3 = "hasError_emit (observer_read d) False ?s2"
  let ?s4 = "error_emit (observer_read d) None ?s3"
  note r = robust_loads [of f "loads s"]
  have 0: "?P s" using assms by simp
  have 1: "?P ?s1" by (rule loading_emit_robust [where P = ?P, OF r]) (use 0 in \<open>simp add: step_fields\<close>)
  have 2: "?P ?s2" by (rule loaded_emit_robust [where P = ?P, OF r]) (use 1 in \<open>simp add: step_fields\<close>)
  have 3: "?P ?s3" by (rule hasError_emit_robust [where P = ?P, OF r]) (use 2 in \<open>simp add: step_fields\<close>)
  have 4: "?P ?s4" by (rule error_emit_robust [where P = ?P, OF r]) (use 3 in \<open>simp add: step_fields\<close>)
  then obtain new where n: "loads ?s4 = new @ loads s" "set (map snd new) \<subseteq> {f}" by blast
  have "refresh d s = subscribe_load f (unsubscribe ?s4)"
    using assms by (simp add: refresh_def refresh_with_def Let_def)
  then have "loads (refresh d s) = ((next_handle ?s4, f) # new) @ loads s"
    using n(1) by (simp add: subscribe_load_def Let_def step_fields)
  moreover have "set (map snd ((next_handle ?s4, f) # new)) = {f}" using n(2) by auto
  ultimately show ?thesis by blast
qed

text \<open>
  C2 (as claimed): \<^verbatim>\<open>reload(f)\<close> leaves the stored source unchanged, so a later
  \<^verbatim>\<open>refresh()\<close> still uses the source configured before. The class assigns
  \<^verbatim>\<open>this.construct = construct\<close>: on a cell configured with source 1, \<^verbatim>\<open>reload\<close> of
  source 2 stores 2, and the \<^verbatim>\<open>refresh()\<close> that follows calls source 2 again.
\<close>

theorem reload_keeps_source_counterexample:
  "construct (new_RxCacheItem demo_config) = Some 1 \<and>
   construct (reload 1 2 (new_RxCacheItem demo_config)) = Some 2 \<and>
   loads (refresh 1 (reload 1 2 (new_RxCacheItem demo_config))) = [(1, 2), (0, 2)]"
  unfolding demo_cell by (simp add: run_defs Let_def)

text \<open>
  C2 (amended): \<^verbatim>\<open>reload(f)\<close> stores \<open>f\<close> as the cell's source: \<open>f\<close> is called for this
  load, and a \<^verbatim>\<open>refresh()\<close> right after it calls \<open>f\<close> again. Whatever the observers
  read meanwhile, the load \<^verbatim>\<open>reload\<close> starts calls \<open>f\<close> and is the active one, and every
  load started during the \<^verbatim>\<open>refresh()\<close> calls \<open>f\<close>. On a cell whose status observers
  do not read the value these are the only loads: one by \<^verbatim>\<open>reload\<close>, one by
  \<^verbatim>\<open>refresh()\<close>.
\<close>

theorem reload_persists_source:
  "construct (reload d f s) = Some f \<and>
   (\<exists>h older. loads (reload d f s) = (h, f) # older \<and> subscription (reload d f s) = Some h) \<and>
   (\<exists>new. loads (refresh d (reload d f s)) = new @ loads (reload d f s) \<and>
          set (map snd new) = {f}) \<and>
   (unread s \<longrightarrow>
      loads (reload d f s) = (next_handle s, f) # loads s \<and>
      loads (refresh d (reload d f s)) = (Suc (next_handle s), f) # (next_handle s, f) # loads s)"
proof -
  have a: "\<exists>h older. loads (reload d f s) = (h, f) # older \<and> subscription (reload d f s) = Some h"
    by (simp add: reload_def subscribe_load_def Let_def)
  have b: "\<exists>new. loads (refresh d (reload d f s)) = new @ loads (reload d f s) \<and>
             set (map snd new) = {f}"
    by (rule refresh_loads) (rule reload_construct)
  have c: "loads (reload d f s) = (next_handle s, f) # loads s \<and>
      loads (refresh d (reload d f s)) = (Suc (next_handle s), f) # (next_handle s, f) # loads s"
    if u: "unread s"
  proof -
    let ?t = "reload d f s"
    have t: "?t = subscribe_load f ((unsubscribe (error_push None (hasError_push False
             (loading_push True (loaded_push False s)))))\<lparr>construct := Some f\<rparr>)"
      by (rule reload_unread [OF u])
    have 1: "loads ?t = (next_handle s, f) # loads s" "next_handle ?t = Suc (next_handle s)"
      unfolding t by (simp_all add: subscribe_load_def Let_def step_fields)
    have "unread ?t" unfolding t using u by (simp add: unread_step)
    from refresh_unread [OF this reload_construct, of d]
    have "loads (refresh d ?t) = (next_handle ?t, f) # loads ?t"
      by (simp add: subscribe_load_def Let_def step_fields)
    with 1 show ?thesis by simp
  qed
  from a b c reload_construct [of d f s] show ?thesis by blast
qed

text \<open>A new cell has no observers: \<^verbatim>\<open>reload\<close> of source 2 starts load 0, the
  \<^verbatim>\<open>refresh()\<close> after it load 1, both from source 2.\<close>

theorem reload_persists_source_witness:
  "unread (new_RxCacheItem demo_config) \<and>
   construct (reload 1 2 (new_RxCacheItem demo_config)) = Some 2 \<and>
   loads (reload 1 2 (new_RxCacheItem demo_config)) = [(0, 2)] \<and>
   loads (refresh 1 (reload 1 2 (new_RxCacheItem demo_config))) = [(1, 2), (0, 2)]"
proof -
  have u: "unread (new_RxCacheItem demo_config)"
    unfolding demo_cell by (simp add: unread_def unread_flags_def unread_error_def chan_defs new_bs_def)
  have n: "next_handle (new_RxCacheItem demo_config) = 0" "loads (new_RxCacheItem demo_config) = []"
    unfolding demo_cell by simp_all
  from reload_persists_source [of 1 2 "new_RxCacheItem demo_config"] u n
  show ?thesis by simp
qed

section \<open>What the observers read after a call\<close>

subsection \<open>After a single step\<close>

lemma observed_step:
  "is_loaded (value_push w s) = (case loaded_bs s of None \<Rightarrow> w \<noteq> None | Some b \<Rightarrow> bs_value b)"
  "is_loaded (loaded_push vloaded s) = vloaded"
  "is_loaded (loading_push vloading s) = is_loaded s"
  "is_loaded (saving_push vsaving s) = is_loaded s"
  "is_loaded (saved_push vsaved s) = is_loaded s"
  "is_loaded (hasError_push vhasError s) = is_loaded s"
  "is_loaded (error_push verror s) = is_loaded s"
  "is_loaded (loaded_get s) = is_loaded s"
  "is_loaded (loading_get s) = is_loaded s"
  "is_loaded (saving_get s) = is_loaded s"
  "is_loaded (saved_get s) = is_loaded s"
  "is_loaded (hasError_get s) = is_loaded s"
  "is_loaded (error_get s) = is_loaded s"
  "is_loaded (unsubscribe s) = is_loaded s"
  "is_loaded (subscribe_load f s) = is_loaded s"
  "is_loaded (detach h s) = is_loaded s"
  "is_loaded (subscribe_save p cb s) = is_loaded s"
  "is_loaded (call_saved cb val s) = is_loaded s"
  "is_loaded (merge_config config s) = is_loaded s"
  "is_loaded (s\<lparr>construct := x\<rparr>) = is_loaded s"
  "is_loading (value_push w s) = is_loading s"
  "is_loading (loaded_push vloaded s) = is_loading s"
  "is_loading (loading_push vloading s) = vloading"
  "is_loading (saving_push vsaving s) = is_loading s"
  "is_loading (saved_push vsaved s) = is_loading s"
  "is_loading (hasError_push vhasError s) = is_loading s"
  "is_loading (error_push verror s) = is_loading s"
  "is_loading (loaded_get s) = is_loading s"
  "is_loading (loading_get s) = is_loading s"
  "is_loading (saving_get s) = is_loading s"
  "is_loading (saved_get s) = is_loading s"
  "is_loading (hasError_get s) = is_loading s"
  "is_loading (error_get s) = is_loading s"
  "is_loading (unsubscribe s) = is_loading s"
  "is_loading (subscribe_load f s) = is_loading s"
  "is_loading (detach h s) = is_loading s"
  "is_loading (subscribe_save p cb s) = is_loading s"
  "is_loading (call_saved cb val s) = is_loading s"
  "is_loading (merge_config config s) = is_loading s"
  "is_loading (s\<lparr>construct := x\<rparr>) = is_loading s"
  "is_saving (value_push w s) = is_saving s"
  "is_saving (loaded_push vloaded s) = is_saving s"
  "is_saving (loading_push vloading s) = is_saving s"
  "is_saving (saving_push vsaving s) = vsaving"
  "is_saving (saved_push vsaved s) = is_saving s"
  "is_saving (hasError_push vhasError s) = is_saving s"
  "is_saving (error_push verror s) = is_saving s"
  "is_saving (loaded_get s) = is_saving s"
  "is_saving (loading_get s) = is_saving s"
  "is_saving (saving_get s) = is_saving s"
  "is_saving (saved_get s) = is_saving s"
  "is_saving (hasError_get s) = is_saving s"
  "is_saving (error_get s) = is_saving s"
  "is_saving (unsubscribe s) = is_saving s"
  "is_saving (subscribe_load f s) = is_saving s"
  "is_saving (detach h s) = is_saving s"
  "is_saving (subscribe_save p cb s) = is_saving s"
  "is_saving (call_saved cb val s) = is_saving s"
  "is_saving (merge_config config s) = is_saving s"
  "is_saving (s\<lparr>construct := x\<rparr>) = is_saving s"
  "is_saved (value_push w s) = is_saved s"
  "is_saved (loaded_push vloaded s) = is_saved s"
  "is_saved (loading_push vloading s) = is_saved s"
  "is_saved (saving_push vsaving s) = is_saved s"
  "is_saved (saved_push vsaved s) = vsaved"
  "is_saved (hasError_push vhasError s) = is_saved s"
  "is_saved (error_push verror s) = is_saved s"
  "is_saved (loaded_get s) = is_saved s"
  "is_saved (loading_get s) = is_saved s"
  "is_saved (saving_get s) = is_saved s"
  "is_saved (saved_get s) = is_saved s"
  "is_saved (hasError_get s) = is_saved s"
  "is_saved (error_get s) = is_saved s"
  "is_saved (unsubscribe s) = is_saved s"
  "is_saved (subscribe_load f s) = is_saved s"
  "is_saved (detach h s) = is_saved s"
  "is_saved (subscribe_save p cb s) = is_saved s"
  "is_saved (call_saved cb val s) = is_saved s"
  "is_saved (merge_config config s) = is_saved s"
  "is_saved (s\<lparr>construct := x\<rparr>) = is_saved s"
  "has_error (value_push w s) = has_error s"
  "has_error (loaded_push vloaded s) = has_error s"
  "has_error (loading_push vloading s) = has_error s"
  "has_error (saving_push vsaving s) = has_error s"
  "has_error (saved_push vsaved s) = has_error s"
  "has_error (hasError_push vhasError s) = vhasError"
  "has_error (error_push verror s) = has_error s"
  "has_error (loaded_get s) = has_error s"
  "has_error (loading_get s) = has_error s"
  "has_error (saving_get s) = has_error s"
  "has_error (saved_get s) = has_error s"
  "has_error (hasError_get s) = has_error s"
  "has_error (error_get s) = has_error s"
  "has_error (unsubscribe s) = has_error s"
  "has_error (subscribe_load f s) = has_error s"
  "has_error (detach h s) = has_error s"
  "has_error (subscribe_save p cb s) = has_error s"
  "has_error (call_saved cb val s) = has_error s"
  "has_error (merge_config config s) = has_error s"
  "has_error (s\<lparr>construct := x\<rparr>) = has_error s"
  "error_message (value_push w s) = error_message s"
  "error_message (loaded_push vloaded s) = error_message s"
  "error_message (loading_push vloading s) = error_message s"
  "error_message (saving_push vsaving s) = error_message s"
  "error_message (saved_push vsaved s) = error_message s"
  "error_message (hasError_push vhasError s) = error_message s"
  "error_message (error_push verror s) = verror"
  "error_message (loaded_get s) = error_message s"
  "error_message (loading_get s) = error_message s"
  "error_message (saving_get s) = error_message s"
  "error_message (saved_get s) = error_message s"
  "error_message (hasError_get s) = error_message s"
  "error_message (error_get s) = error_message s"
  "error_message (unsubscribe s) = error_message s"
  "error_message (subscribe_load f s) = error_message s"
  "error_message (detach h s) = error_message s"
  "error_message (subscribe_save p cb s) = error_message s"
  "error_message (call_saved cb val s) = error_message s"
  "error_message (merge_config config s) = error_message s"
  "error_message (s\<lparr>construct := x\<rparr>) = error_message s"
  "current_value (value_push w s) = w"
  "current_value (loaded_push vloaded s) = current_value s"
  "current_value (loading_push vloading s) = current_value s"
  "current_value (saving_push vsaving s) = current_value s"
  "current_value (saved_push vsaved s) = current_value s"
  "current_value (hasError_push vhasError s) = current_value s"
  "current_value (error_push verror s) = current_value s"
  "current_value (loaded_get s) = current_value s"
  "current_value (loading_get s) = current_value s"
  "current_value (saving_get s) = current_value s"
  "current_value (saved_get s) = current_value s"
  "current_value (hasError_get s) = current_value s"
  "current_value (error_get s) = current_value s"
  "current_value (unsubscribe s) = current_value s"
  "current_value (subscribe_load f s) = current_value s"
  "current_value (detach h s) = current_value s"
  "current_value (subscribe_save p cb s) = current_value s"
  "current_value (call_saved cb val s) = current_value s"
  "current_value (merge_config config s) = current_value s"
  "current_value (s\<lparr>construct := x\<rparr>) = current_value s"
  by (simp_all add: obs_defs chan_step chan_update step_fields touched_fields bs_sel_simps
      split: option.splits)

lemma robust_observed:
  "robust (\<lambda>s. \<not> has_error s)" "robust error_cleared" "robust (\<lambda>s. current_value s = c)"
  "robust (\<lambda>s. is_saving s = a)" "robust (\<lambda>s. is_saved s = b)"
  by (simp_all add: robust_def error_cleared_def observed_step)

subsection \<open>Reads of a loaded cell\<close>

lemma observer_read_settled:
  assumes "is_loaded s"
  shows "observer_read d s = s \<or> observer_read d s = loaded_get s"
  using assms by (cases d) (simp_all add: value_get_with_def is_loaded_def split: option.splits)

lemma settled_keeps:
  assumes "\<And>x. Q x \<Longrightarrow> Q (loaded_get x)" and "\<And>x. Q x \<Longrightarrow> is_loaded x" and "Q s"
  shows "Q (observer_read d s)"
  using observer_read_settled [OF assms(2) [OF assms(3)], of d] assms(1) [OF assms(3)] assms(3)
  by auto

lemma value_emit_settled:
  assumes "\<And>x. Q x \<Longrightarrow> Q (loaded_get x)" and "\<And>x. Q x \<Longrightarrow> is_loaded x" and "Q (value_push v s)"
  shows "Q (value_emit (observer_read d) v s)"
  by (rule value_emit_keeps [where P = Q, OF _ assms(3)])
     (rule settled_keeps [where Q = Q, OF assms(1) assms(2)], assumption+)



lemma saving_emit_settled:
  assumes "\<And>x. Q x \<Longrightarrow> Q (loaded_get x)" and "\<And>x. Q x \<Longrightarrow> is_loaded x" and "Q (saving_push v s)"
  shows "Q (saving_emit (observer_read d) v s)"
  by (rule saving_emit_keeps [where P = Q, OF _ assms(3)])
     (rule settled_keeps [where Q = Q, OF assms(1) assms(2)], assumption+)

lemma saved_emit_settled:
  assumes "\<And>x. Q x \<Longrightarrow> Q (loaded_get x)" and "\<And>x. Q x \<Longrightarrow> is_loaded x" and "Q (saved_push v s)"
  shows "Q (saved_emit (observer_read d) v s)"
  by (rule saved_emit_keeps [where P = Q, OF _ assms(3)])
     (rule settled_keeps [where Q = Q, OF assms(1) assms(2)], assumption+)

lemma hasError_emit_settled:
  assumes "\<And>x. Q x \<Longrightarrow> Q (loaded_get x)" and "\<And>x. Q x \<Longrightarrow> is_loaded x" and "Q (hasError_push v s)"
  shows "Q (hasError_emit (observer_read d) v s)"
  by (rule hasError_emit_keeps [where P = Q, OF _ assms(3)])
     (rule settled_keeps [where Q = Q, OF assms(1) assms(2)], assumption+)

lemma error_emit_settled:
  assumes "\<And>x. Q x \<Longrightarrow> Q (loaded_get x)" and "\<And>x. Q x \<Longrightarrow> is_loaded x" and "Q (error_push v s)"
  shows "Q (error_emit (observer_read d) v s)"
  by (rule error_emit_keeps [where P = Q, OF _ assms(3)])
     (rule settled_keeps [where Q = Q, OF assms(1) assms(2)], assumption+)
subsection \<open>Clearing the error\<close>



lemma emit_flag: "\<not> has_error (hasError_emit (observer_read d) False s)"
  by (rule hasError_emit_robust [where P = "\<lambda>s. \<not> has_error s", OF robust_observed(1)])
     (simp add: observed_step)

lemma emit_message:
  assumes "\<not> has_error s"
  shows "error_cleared (error_emit (observer_read d) None s)"
  by (rule error_emit_robust [where P = error_cleared, OF robust_observed(2)])
     (use assms in \<open>simp add: error_cleared_def observed_step\<close>)


subsection \<open>Update\<close>






end
